theory Spec2Isabelle
  imports Complex_Main
begin

section \<open>Common browser notions\<close>

text \<open>
  The utilities run on the browser's main event loop. Every run-to-completion piece of
  code (a method call, an event handler, a timer callback, the continuation after an
  \<^verbatim>\<open>await\<close>) is one function from state to state. Exceptions are values: a piece
  of code that can throw returns an outcome that carries the state reached when it threw,
  because the assignments made before the throw persist.
\<close>

datatype exn = SyntaxError | TypeError | ReferenceError | SecurityError | QuotaExceededError
  | NotAllowedError

datatype 's outcome = Normal 's | Throw exn 's

definition try_catch :: "'s outcome \<Rightarrow> (exn \<Rightarrow> 's \<Rightarrow> 's outcome) \<Rightarrow> 's outcome" where
  "try_catch body handler = (case body of Normal s \<Rightarrow> Normal s | Throw e s \<Rightarrow> handler e s)"

text \<open>Whether a piece of code returned normally, and the state it left.\<close>

definition returns :: "'s outcome \<Rightarrow> bool" where
  "returns r = (case r of Normal s \<Rightarrow> True | Throw e s \<Rightarrow> False)"

definition outcome_state :: "'s outcome \<Rightarrow> 's" where
  "outcome_state r = (case r of Normal s \<Rightarrow> s | Throw e s \<Rightarrow> s)"

datatype log_level = Debug | Warn | Error

type_synonym log_entry = "log_level \<times> string"

text \<open>An element of the page: its class list, its attributes and its inline style.\<close>

record element =
  classList :: "string set"
  attributes :: "string \<rightharpoonup> string"
  style :: "string \<rightharpoonup> string"
  textContent :: string

text \<open>Template literals print an integer in decimal, with a minus sign when negative.\<close>

definition digit_char :: "nat \<Rightarrow> char" where
  "digit_char d = ''0123456789'' ! (d mod 10)"

fun nat_to_string :: "nat \<Rightarrow> string" where
  "nat_to_string n = (if n < 10 then [digit_char n] else nat_to_string (n div 10) @ [digit_char n])"

declare nat_to_string.simps [simp del]

definition js_int_to_string :: "int \<Rightarrow> string" where
  "js_int_to_string i = (if i < 0 then CHR ''-'' # nat_to_string (nat (- i)) else nat_to_string (nat i))"

text \<open>\<^verbatim>\<open>x || d\<close> on an optional value: the default replaces a missing and a falsy value.\<close>

definition js_or :: "('a \<Rightarrow> bool) \<Rightarrow> 'a option \<Rightarrow> 'a \<Rightarrow> 'a" where
  "js_or falsy x d = (case x of None \<Rightarrow> d | Some v \<Rightarrow> if falsy v then d else v)"

section \<open>Mobile navigation controller (mobile-navigation.ts)\<close>

record mn_config_input =
  in_hamburgerSelector :: string
  in_menuSelector :: string
  in_navLinksSelector :: string
  in_pageTitleSelector :: "string option"
  in_debounceDelay :: "int option"
  in_animationDuration :: "int option"
  in_opacityDuration :: "int option"

record mn_config =
  hamburgerSelector :: string
  menuSelector :: string
  navLinksSelector :: string
  pageTitleSelector :: string
  debounceDelay :: int
  animationDuration :: int
  opacityDuration :: int

text \<open>The configuration the constructor builds, with its defaults.\<close>

definition mn_make_config :: "mn_config_input \<Rightarrow> mn_config" where
  "mn_make_config c = \<lparr>
     hamburgerSelector = in_hamburgerSelector c,
     menuSelector = in_menuSelector c,
     navLinksSelector = in_navLinksSelector c,
     pageTitleSelector = js_or (\<lambda>s. s = []) (in_pageTitleSelector c) ''.mobile-page-title'',
     debounceDelay = js_or (\<lambda>n. n = 0) (in_debounceDelay c) 300,
     animationDuration = js_or (\<lambda>n. n = 0) (in_animationDuration c) 500,
     opacityDuration = js_or (\<lambda>n. n = 0) (in_opacityDuration c) 300 \<rparr>"

record nav_link =
  href :: "string option"
  isHTMLElement :: bool

datatype mn_target = HamburgerEl | DocumentEl | NavLinkEl nat

datatype mn_handler = HandleHamburgerClick | HandleOutsideClick | HandleEscapeKey
  | HandleNavLinkClick

text \<open>
  The closures handed to \<^verbatim>\<open>window.setTimeout\<close>: the one of toggleMenu, the one of
  startNavigationClose, and the one of handleNavLinkClick (with the link's href).
\<close>

datatype mn_callback = ResetAnimating | FinishNavigationClose | UpdatePageTitle "string option"

text \<open>
  The controller's fields, followed by the parts of the browser it acts on: the body's
  inline overflow, the viewport height, the listeners it has registered, the pending
  timers (identifier, delay in milliseconds, callback) and the console.
\<close>

record mn_state =
  mn_hamburger :: "element option"
  mn_menu :: "element option"
  mn_navLinks :: "nav_link list option"
  mn_pageTitle :: "element option"
  mn_isAnimating :: bool
  mn_lastClickTime :: int
  mn_cleanupTimeout :: "nat option"
  mn_cfg :: mn_config
  mn_pageMapping :: "string \<rightharpoonup> string"
  mn_body_overflow :: string
  mn_innerHeight :: int
  mn_listeners :: "(mn_target \<times> string \<times> mn_handler) set"
  mn_timers :: "(nat \<times> int \<times> mn_callback) list"
  mn_next_timer :: nat
  mn_console :: "log_entry list"

definition mn_log :: "log_level \<Rightarrow> string \<Rightarrow> mn_state \<Rightarrow> mn_state" where
  "mn_log l msg st = st\<lparr>mn_console := mn_console st @ [(l, msg)]\<rparr>"

text \<open>\<^verbatim>\<open>window.setTimeout\<close> returns a fresh positive identifier.\<close>

definition mn_setTimeout :: "mn_callback \<Rightarrow> int \<Rightarrow> mn_state \<Rightarrow> nat \<times> mn_state" where
  "mn_setTimeout cb d st =
     (let i = Suc (mn_next_timer st)
      in (i, st\<lparr>mn_timers := mn_timers st @ [(i, d, cb)], mn_next_timer := i\<rparr>))"

definition mn_clearTimeout :: "nat \<Rightarrow> mn_state \<Rightarrow> mn_state" where
  "mn_clearTimeout i st = st\<lparr>mn_timers := filter (\<lambda>t. fst t \<noteq> i) (mn_timers st)\<rparr>"

text \<open>
  \<^verbatim>\<open>if (this.cleanupTimeout) { clearTimeout(this.cleanupTimeout); this.cleanupTimeout = null; }\<close>
\<close>

definition mn_clear_pending :: "mn_state \<Rightarrow> mn_state" where
  "mn_clear_pending st = (case mn_cleanupTimeout st of
       None \<Rightarrow> st
     | Some i \<Rightarrow> if i = 0 then st else (mn_clearTimeout i st)\<lparr>mn_cleanupTimeout := None\<rparr>)"

text \<open>The listeners on the navigation links that are HTML elements.\<close>

definition nav_link_listeners :: "nav_link list option \<Rightarrow> (mn_target \<times> string \<times> mn_handler) set" where
  "nav_link_listeners ls = (case ls of None \<Rightarrow> {}
     | Some xs \<Rightarrow> (\<lambda>i. (NavLinkEl i, ''click'', HandleNavLinkClick)) `
         {i \<in> set [0..<length xs]. isHTMLElement (xs ! i)})"

definition mn_cleanup :: "mn_state \<Rightarrow> mn_state" where
  "mn_cleanup st =
     (let st1 = (if mn_hamburger st \<noteq> None
                 then st\<lparr>mn_listeners := mn_listeners st - {(HamburgerEl, ''click'', HandleHamburgerClick)}\<rparr>
                 else st);
          st2 = st1\<lparr>mn_listeners := mn_listeners st1
                   - {(DocumentEl, ''click'', HandleOutsideClick), (DocumentEl, ''keydown'', HandleEscapeKey)}\<rparr>;
          st3 = st2\<lparr>mn_listeners := mn_listeners st2 - nav_link_listeners (mn_navLinks st2)\<rparr>
      in mn_clear_pending st3)"

text \<open>
  The document as the selectors see it. \<^verbatim>\<open>querySelector\<close> and
  \<^verbatim>\<open>querySelectorAll\<close> throw a SyntaxError on a selector that does not parse.
\<close>

record mn_document =
  selector_valid :: "string \<Rightarrow> bool"
  select_first :: "string \<Rightarrow> element option"
  select_links :: "string \<Rightarrow> nav_link list"

definition querySelector :: "mn_document \<Rightarrow> string \<Rightarrow> exn + element option" where
  "querySelector doc sel = (if selector_valid doc sel then Inr (select_first doc sel) else Inl SyntaxError)"

definition querySelectorAll :: "mn_document \<Rightarrow> string \<Rightarrow> exn + nav_link list" where
  "querySelectorAll doc sel = (if selector_valid doc sel then Inr (select_links doc sel) else Inl SyntaxError)"

text \<open>The body of the \<^verbatim>\<open>try\<close> block of init.\<close>

definition mn_init_try :: "mn_document \<Rightarrow> mn_state \<Rightarrow> mn_state outcome" where
  "mn_init_try doc st0 =
     (let st1 = mn_cleanup st0 in
      case querySelector doc (hamburgerSelector (mn_cfg st1)) of
        Inl e \<Rightarrow> Throw e st1
      | Inr h \<Rightarrow>
     (let st2 = st1\<lparr>mn_hamburger := h\<rparr> in
      case querySelector doc (menuSelector (mn_cfg st2)) of
        Inl e \<Rightarrow> Throw e st2
      | Inr m \<Rightarrow>
     (let st3 = st2\<lparr>mn_menu := m\<rparr> in
      case querySelectorAll doc (navLinksSelector (mn_cfg st3)) of
        Inl e \<Rightarrow> Throw e st3
      | Inr ls \<Rightarrow>
     (let st4 = st3\<lparr>mn_navLinks := Some ls\<rparr> in
      case querySelector doc (pageTitleSelector (mn_cfg st4)) of
        Inl e \<Rightarrow> Throw e st4
      | Inr t \<Rightarrow>
     (let st5 = st4\<lparr>mn_pageTitle := t\<rparr> in
      if mn_hamburger st5 = None \<or> mn_menu st5 = None
      then Normal (mn_log Warn ''Mobile navigation elements not found'' st5)
      else Normal (mn_log Debug ''Mobile navigation initialized''
             (st5\<lparr>mn_listeners := mn_listeners st5
                 \<union> {(HamburgerEl, ''click'', HandleHamburgerClick),
                     (DocumentEl, ''click'', HandleOutsideClick),
                     (DocumentEl, ''keydown'', HandleEscapeKey)}
                 \<union> nav_link_listeners (mn_navLinks st5)\<rparr>)))))))"

definition mn_init :: "mn_document \<Rightarrow> mn_state \<Rightarrow> mn_state outcome" where
  "mn_init doc st = try_catch (mn_init_try doc st)
     (\<lambda>e s. Normal (mn_log Error ''Failed to initialize mobile navigation:'' s))"

text \<open>
  toggleMenu. The class-list, attribute and style operations of its body do not throw, so
  its \<^verbatim>\<open>catch\<close> branch is not entered and the function is total on states.
\<close>

definition toggleMenu :: "mn_state \<Rightarrow> mn_state" where
  "toggleMenu st =
     (case (mn_hamburger st, mn_menu st) of
        (Some h, Some m) \<Rightarrow>
          if mn_isAnimating st then mn_log Debug ''Toggle blocked:'' st
          else
            (let isActive = (''is-active'' \<in> classList h);
                 h' = h\<lparr>classList := (if isActive then classList h - {''is-active''}
                                       else insert ''is-active'' (classList h)),
                        attributes := (attributes h)(''aria-expanded'' \<mapsto>
                                       (if isActive then ''false'' else ''true''))\<rparr>;
                 st1 = mn_log Debug ''Toggle menu:'' (st\<lparr>mn_isAnimating := True, mn_hamburger := Some h'\<rparr>);
                 st2 = (if \<not> isActive
                        then (let menuHeight = mn_innerHeight st1 - 80;
                                  m' = m\<lparr>style := (style m)(''height'' \<mapsto> js_int_to_string menuHeight @ ''px''),
                                         classList := insert ''menu-open'' (classList m)\<rparr>
                              in mn_log Debug ''Menu opened successfully:''
                                   ((mn_log Debug ''Opening menu:'' st1)
                                      \<lparr>mn_menu := Some m', mn_body_overflow := ''hidden''\<rparr>))
                        else (let m' = m\<lparr>classList := classList m - {''menu-open''},
                                         style := (style m)(''height'' \<mapsto> ''0'')\<rparr>
                              in mn_log Debug ''Menu closed successfully''
                                   ((mn_log Debug ''Closing menu'' st1)
                                      \<lparr>mn_menu := Some m', mn_body_overflow := ''''\<rparr>)));
                 (tid, st3) = mn_setTimeout ResetAnimating
                                (max (animationDuration (mn_cfg st2)) (opacityDuration (mn_cfg st2))) st2
             in st3\<lparr>mn_cleanupTimeout := Some tid\<rparr>)
      | _ \<Rightarrow> mn_log Debug ''Toggle blocked:'' st)"

text \<open>handleHamburgerClick, at the time \<open>now\<close> that \<^verbatim>\<open>Date.now()\<close> returns.\<close>

definition handleHamburgerClick :: "int \<Rightarrow> mn_state \<Rightarrow> mn_state" where
  "handleHamburgerClick now st =
     (if now - mn_lastClickTime st < debounceDelay (mn_cfg st) then st
      else (let st1 = st\<lparr>mn_lastClickTime := now\<rparr>
            in if mn_isAnimating st1 then st1 else toggleMenu st1))"

text \<open>A click on the document: whether the menu, and the hamburger, contain its target.\<close>

record click_event =
  target_in_menu :: bool
  target_in_hamburger :: bool

definition is_active :: "mn_state \<Rightarrow> bool" where
  "is_active st = (case mn_hamburger st of None \<Rightarrow> False | Some h \<Rightarrow> ''is-active'' \<in> classList h)"

definition handleOutsideClick :: "click_event \<Rightarrow> mn_state \<Rightarrow> mn_state" where
  "handleOutsideClick e st =
     (if mn_hamburger st \<noteq> None \<and> mn_menu st \<noteq> None \<and> is_active st
         \<and> \<not> target_in_menu e \<and> \<not> target_in_hamburger e
      then toggleMenu st else st)"

definition handleEscapeKey :: "string \<Rightarrow> mn_state \<Rightarrow> mn_state" where
  "handleEscapeKey key st =
     (if key = ''Escape'' \<and> mn_hamburger st \<noteq> None \<and> is_active st then toggleMenu st else st)"

definition startNavigationClose :: "mn_state \<Rightarrow> mn_state" where
  "startNavigationClose st =
     (case (mn_menu st, mn_hamburger st) of
        (Some m, Some h) \<Rightarrow>
          (let h' = h\<lparr>classList := classList h - {''is-active''},
                      attributes := (attributes h)(''aria-expanded'' \<mapsto> ''false'')\<rparr>;
               m' = m\<lparr>classList := insert ''navigating'' (classList m) - {''menu-open''},
                      style := (style m)(''height'' \<mapsto> ''0'')\<rparr>;
               st1 = st\<lparr>mn_isAnimating := True, mn_hamburger := Some h', mn_menu := Some m',
                        mn_body_overflow := ''''\<rparr>;
               (tid, st2) = mn_setTimeout FinishNavigationClose 200 st1
           in st2\<lparr>mn_cleanupTimeout := Some tid\<rparr>)
      | _ \<Rightarrow> st)"

definition handleNavLinkClick :: "nav_link \<Rightarrow> mn_state \<Rightarrow> mn_state" where
  "handleNavLinkClick link st =
     (if mn_hamburger st \<noteq> None \<and> is_active st
      then (let st1 = startNavigationClose st;
                (tid, st2) = mn_setTimeout (UpdatePageTitle (href link)) 200 st1
            in st2\<lparr>mn_cleanupTimeout := Some tid\<rparr>)
      else st)"

definition forceCloseMenu :: "mn_state \<Rightarrow> mn_state" where
  "forceCloseMenu st =
     (case (mn_menu st, mn_hamburger st) of
        (Some m, Some h) \<Rightarrow>
          (let m' = m\<lparr>classList := classList m - {''menu-open''},
                      style := (style m)(''height'' \<mapsto> ''0'')\<rparr>;
               h' = h\<lparr>classList := classList h - {''is-active''},
                      attributes := (attributes h)(''aria-expanded'' \<mapsto> ''false'')\<rparr>;
               st1 = (mn_log Debug ''Force closing menu'' st)
                       \<lparr>mn_isAnimating := False, mn_menu := Some m', mn_hamburger := Some h',
                        mn_body_overflow := ''''\<rparr>
           in mn_log Debug ''Menu force closed successfully'' (mn_clear_pending st1))
      | _ \<Rightarrow> st)"

definition forceOpenMenu :: "mn_state \<Rightarrow> mn_state" where
  "forceOpenMenu st =
     (case (mn_menu st, mn_hamburger st) of
        (Some m, Some h) \<Rightarrow>
          (let menuHeight = mn_innerHeight st - 80;
               m' = m\<lparr>style := (style m)(''height'' \<mapsto> js_int_to_string menuHeight @ ''px''),
                      classList := insert ''menu-open'' (classList m)\<rparr>;
               h' = h\<lparr>classList := insert ''is-active'' (classList h),
                      attributes := (attributes h)(''aria-expanded'' \<mapsto> ''true'')\<rparr>;
               st1 = (mn_log Debug ''Force opening menu'' st)
                       \<lparr>mn_isAnimating := False, mn_menu := Some m', mn_hamburger := Some h',
                        mn_body_overflow := ''hidden''\<rparr>
           in mn_log Debug ''Menu force opened successfully:'' (mn_clear_pending st1))
      | _ \<Rightarrow> st)"

text \<open>
  getPageTitle: the mapped title, or the last path segment with its words capitalised.
  \<^verbatim>\<open>toUpperCase\<close> is modelled on the ASCII letters.
\<close>

fun split_on :: "char \<Rightarrow> string \<Rightarrow> string list" where
  "split_on c [] = [[]]"
| "split_on c (x # xs) =
     (if x = c then [] # split_on c xs
      else (case split_on c xs of [] \<Rightarrow> [[x]] | w # ws \<Rightarrow> (x # w) # ws))"

definition to_upper :: "char \<Rightarrow> char" where
  "to_upper c = (let n = (of_char c :: nat) in if 97 \<le> n \<and> n \<le> 122 then char_of (n - 32) else c)"

definition capitalize :: "string \<Rightarrow> string" where
  "capitalize w = (case w of [] \<Rightarrow> [] | c # cs \<Rightarrow> to_upper c # cs)"

fun join_with :: "string \<Rightarrow> string list \<Rightarrow> string" where
  "join_with sep [] = []"
| "join_with sep [w] = w"
| "join_with sep (w # ws) = w @ sep @ join_with sep ws"

definition getPageTitle :: "(string \<rightharpoonup> string) \<Rightarrow> string option \<Rightarrow> string" where
  "getPageTitle pageMapping path = (case path of
       None \<Rightarrow> ''Home''
     | Some p \<Rightarrow>
         if p = [] then ''Home''
         else if (case pageMapping p of None \<Rightarrow> False | Some t \<Rightarrow> t \<noteq> []) then the (pageMapping p)
         else (let pathParts = filter (\<lambda>w. w \<noteq> []) (split_on CHR ''/'' p)
               in if pathParts \<noteq> []
                  then join_with '' '' (map capitalize (split_on CHR ''-'' (last pathParts)))
                  else ''Home''))"

definition default_pageMapping :: "string \<rightharpoonup> string" where
  "default_pageMapping = [''/'' \<mapsto> ''Home'', ''/about'' \<mapsto> ''About Me'', ''/blog'' \<mapsto> ''Blog'',
     ''/courses'' \<mapsto> ''Courses'', ''/gallery'' \<mapsto> ''Gallery'']"

text \<open>The callback of a timer, run when the timer fires.\<close>

definition mn_timer_callback :: "mn_callback \<Rightarrow> mn_state \<Rightarrow> mn_state" where
  "mn_timer_callback cb st = (case cb of
       ResetAnimating \<Rightarrow>
         mn_log Debug ''Animation completed, isAnimating reset to false'' (st\<lparr>mn_isAnimating := False\<rparr>)
     | FinishNavigationClose \<Rightarrow>
         (let st1 = st\<lparr>mn_isAnimating := False\<rparr>
          in case mn_menu st1 of None \<Rightarrow> st1
             | Some m \<Rightarrow> st1\<lparr>mn_menu := Some (m\<lparr>classList := classList m - {''navigating''}\<rparr>)\<rparr>)
     | UpdatePageTitle p \<Rightarrow>
         (let newTitle = getPageTitle (mn_pageMapping st) p
          in case mn_pageTitle st of
               None \<Rightarrow> st
             | Some t \<Rightarrow> if newTitle \<noteq> [] then st\<lparr>mn_pageTitle := Some (t\<lparr>textContent := newTitle\<rparr>)\<rparr> else st))"

text \<open>A pending timer fires: it leaves the pending list and its callback runs.\<close>

definition mn_fire_timer :: "nat \<Rightarrow> mn_state \<Rightarrow> mn_state" where
  "mn_fire_timer i st = (case filter (\<lambda>t. fst t = i) (mn_timers st) of
       [] \<Rightarrow> st
     | t # _ \<Rightarrow> mn_timer_callback (snd (snd t)) (mn_clearTimeout i st))"

text \<open>The menu is closed: what the close paths establish.\<close>

definition menu_closed :: "mn_state \<Rightarrow> bool" where
  "menu_closed st = (case (mn_hamburger st, mn_menu st) of
       (Some h, Some m) \<Rightarrow> ''is-active'' \<notin> classList h \<and> attributes h ''aria-expanded'' = Some ''false''
          \<and> style m ''height'' = Some ''0'' \<and> mn_body_overflow st = ''''
     | _ \<Rightarrow> False)"

text \<open>
  A concrete page: the controller after a successful init with
  \<^verbatim>\<open>defaultMobileNavigationConfig\<close>, the menu closed, in a viewport 800 pixels high.
\<close>

definition blank_element :: element where
  "blank_element = \<lparr>classList = {}, attributes = Map.empty, style = Map.empty, textContent = ''''\<rparr>"

definition defaultMobileNavigationConfig :: mn_config_input where
  "defaultMobileNavigationConfig = \<lparr>in_hamburgerSelector = ''#mobile-hamburger'',
     in_menuSelector = ''#mobile-navigation'',
     in_navLinksSelector = ''#mobile-navigation .nav-link a'',
     in_pageTitleSelector = Some ''.mobile-page-title'',
     in_debounceDelay = Some 300, in_animationDuration = Some 500, in_opacityDuration = Some 300\<rparr>"

definition mn_example :: mn_state where
  "mn_example = \<lparr>mn_hamburger = Some blank_element, mn_menu = Some blank_element,
     mn_navLinks = Some [\<lparr>href = Some ''/blog'', isHTMLElement = True\<rparr>],
     mn_pageTitle = Some blank_element,
     mn_isAnimating = False, mn_lastClickTime = 0, mn_cleanupTimeout = None,
     mn_cfg = mn_make_config defaultMobileNavigationConfig,
     mn_pageMapping = default_pageMapping,
     mn_body_overflow = '''', mn_innerHeight = 800,
     mn_listeners = {(HamburgerEl, ''click'', HandleHamburgerClick),
       (DocumentEl, ''click'', HandleOutsideClick),
       (DocumentEl, ''keydown'', HandleEscapeKey),
       (NavLinkEl 0, ''click'', HandleNavLinkClick)},
     mn_timers = [], mn_next_timer = 0, mn_console = []\<rparr>"

definition mn_document_example :: mn_document where
  "mn_document_example = \<lparr>selector_valid = (\<lambda>s. True),
     select_first = (\<lambda>s. Some blank_element),
     select_links = (\<lambda>s. [\<lparr>href = Some ''/blog'', isHTMLElement = True\<rparr>])\<rparr>"


definition mn_document_strict :: mn_document where
  "mn_document_strict = \<lparr>selector_valid = (\<lambda>s. s \<noteq> [] \<and> s \<noteq> ''#''), select_first = (\<lambda>s. Some blank_element),
     select_links = (\<lambda>s. [])\<rparr>"

section \<open>Session storage and numbers\<close>

text \<open>
  \<^verbatim>\<open>sessionStorage\<close>: whether \<^verbatim>\<open>'sessionStorage' in window\<close> holds, its items, and
  whether reading it or writing to it throws (a storage disabled by policy throws a
  SecurityError, a storage without quota throws a QuotaExceededError on
  \<^verbatim>\<open>setItem\<close>). Naming \<^verbatim>\<open>sessionStorage\<close> where the window has none is a
  ReferenceError.
\<close>

record session_storage =
  ss_in_window :: bool
  ss_items :: "string \<rightharpoonup> string"
  ss_get_throws :: bool
  ss_set_throws :: bool

definition getItem :: "session_storage \<Rightarrow> string \<Rightarrow> exn + string option" where
  "getItem ss k =
     (if \<not> ss_in_window ss then Inl ReferenceError
      else if ss_get_throws ss then Inl SecurityError
      else Inr (ss_items ss k))"

definition setItem :: "session_storage \<Rightarrow> string \<Rightarrow> string \<Rightarrow> exn + session_storage" where
  "setItem ss k v =
     (if \<not> ss_in_window ss then Inl ReferenceError
      else if ss_set_throws ss then Inl QuotaExceededError
      else Inr (ss\<lparr>ss_items := (ss_items ss)(k \<mapsto> v)\<rparr>))"

text \<open>
  A number of the language: not-a-number, the two infinities, or a finite value. Finite
  values are exact rationals: the rounding of a decimal literal to the nearest double, and
  the overflow of a large literal to infinity, are not modelled.
\<close>

datatype jsnum = NaN | PosInf | NegInf | Fin rat

fun js_neg :: "jsnum \<Rightarrow> jsnum" where
  "js_neg NaN = NaN"
| "js_neg PosInf = NegInf"
| "js_neg NegInf = PosInf"
| "js_neg (Fin a) = Fin (- a)"

fun js_sub :: "jsnum \<Rightarrow> jsnum \<Rightarrow> jsnum" where
  "js_sub (Fin a) (Fin b) = Fin (a - b)"
| "js_sub NaN y = NaN"
| "js_sub x NaN = NaN"
| "js_sub PosInf PosInf = NaN"
| "js_sub NegInf NegInf = NaN"
| "js_sub PosInf y = PosInf"
| "js_sub NegInf y = NegInf"
| "js_sub (Fin a) y = js_neg y"

fun js_abs :: "jsnum \<Rightarrow> jsnum" where
  "js_abs NaN = NaN"
| "js_abs PosInf = PosInf"
| "js_abs NegInf = PosInf"
| "js_abs (Fin a) = Fin \<bar>a\<bar>"

text \<open>\<^verbatim>\<open>x > y\<close>: false as soon as one side is not a number.\<close>

fun js_gt :: "jsnum \<Rightarrow> jsnum \<Rightarrow> bool" where
  "js_gt (Fin a) (Fin b) = (a > b)"
| "js_gt NaN y = False"
| "js_gt x NaN = False"
| "js_gt PosInf y = (y \<noteq> PosInf)"
| "js_gt NegInf y = False"
| "js_gt (Fin a) PosInf = False"
| "js_gt (Fin a) NegInf = True"

definition isNaN :: "jsnum \<Rightarrow> bool" where
  "isNaN x = (x = NaN)"

text \<open>
  \<^verbatim>\<open>parseFloat\<close> of the language: leading white space is skipped, then the longest
  prefix that is a decimal literal (sign, digits, fraction, exponent) or a signed
  \<^verbatim>\<open>Infinity\<close> is read; when there is none the result is not-a-number. Strings are
  byte strings here, so only the ASCII white space is skipped.
\<close>

definition is_js_whitespace :: "char \<Rightarrow> bool" where
  "is_js_whitespace c = ((of_char c :: nat) \<in> {9, 10, 11, 12, 13, 32})"

definition is_digit :: "char \<Rightarrow> bool" where
  "is_digit c = (48 \<le> (of_char c :: nat) \<and> (of_char c :: nat) \<le> 57)"

definition digits_value :: "string \<Rightarrow> nat" where
  "digits_value ds = foldl (\<lambda>a c. 10 * a + ((of_char c :: nat) - 48)) 0 ds"

definition split_sign :: "string \<Rightarrow> bool \<times> string" where
  "split_sign s = (case s of
       [] \<Rightarrow> (False, s)
     | c # r \<Rightarrow> if c = CHR ''-'' then (True, r) else if c = CHR ''+'' then (False, r) else (False, s))"

text \<open>The exponent part: \<^verbatim>\<open>e\<close> or \<^verbatim>\<open>E\<close>, a sign, and at least one digit; else none.\<close>

definition exponent_part :: "string \<Rightarrow> int" where
  "exponent_part s = (case s of
       [] \<Rightarrow> 0
     | c # r \<Rightarrow>
         if c = CHR ''e'' \<or> c = CHR ''E''
         then (let (neg, u) = split_sign r; ds = takeWhile is_digit u
               in if ds = [] then 0
                  else if neg then - int (digits_value ds) else int (digits_value ds))
         else 0)"

definition scale10 :: "rat \<Rightarrow> int \<Rightarrow> rat" where
  "scale10 m e = (if 0 \<le> e then m * 10 ^ nat e else m / 10 ^ nat (- e))"

definition parseFloat :: "string \<Rightarrow> jsnum" where
  "parseFloat s =
     (let (neg, u) = split_sign (dropWhile is_js_whitespace s)
      in if take 8 u = ''Infinity'' then (if neg then NegInf else PosInf)
         else
           (let ip = takeWhile is_digit u;
                r1 = dropWhile is_digit u;
                (fp, r2) = (case r1 of
                              [] \<Rightarrow> ([], r1)
                            | c # r \<Rightarrow> if c = CHR ''.''
                                       then (takeWhile is_digit r, dropWhile is_digit r)
                                       else ([], r1))
            in if ip = [] \<and> fp = [] then NaN
               else
                 (let m = scale10 (of_nat (digits_value ip)
                                    + of_nat (digits_value fp) / 10 ^ length fp)
                            (exponent_part r2)
                  in Fin (if neg then - m else m))))"

section \<open>Video background manager (class VideoBackgroundManager)\<close>

record vb_config_input =
  in_videoId :: "string option"
  in_placeholderId :: "string option"
  in_fadeDuration :: "int option"
  in_fallbackTimeout :: "int option"
  in_loadDelay :: "int option"

record vb_config =
  videoId :: string
  placeholderId :: string
  fadeDuration :: int
  fallbackTimeout :: int
  loadDelay :: int

text \<open>The constructor spreads the given configuration over the defaults.\<close>

definition vb_make_config :: "vb_config_input \<Rightarrow> vb_config" where
  "vb_make_config c = \<lparr>
     videoId = (case in_videoId c of None \<Rightarrow> ''bgvid'' | Some v \<Rightarrow> v),
     placeholderId = (case in_placeholderId c of None \<Rightarrow> ''video-placeholder'' | Some v \<Rightarrow> v),
     fadeDuration = (case in_fadeDuration c of None \<Rightarrow> 500 | Some v \<Rightarrow> v),
     fallbackTimeout = (case in_fallbackTimeout c of None \<Rightarrow> 3000 | Some v \<Rightarrow> v),
     loadDelay = (case in_loadDelay c of None \<Rightarrow> 100 | Some v \<Rightarrow> v) \<rparr>"

text \<open>
  The video element: \<^verbatim>\<open>paused\<close>, \<^verbatim>\<open>currentTime\<close>, the number of calls of
  \<^verbatim>\<open>play()\<close> made so far, and what the browser does on \<^verbatim>\<open>play()\<close>: whether the
  call returns a promise at all, and whether playback is allowed to start (otherwise the
  promise is rejected).
\<close>

record video_element =
  paused :: bool
  currentTime :: jsnum
  play_calls :: nat
  play_returns_promise :: bool
  autoplay_allowed :: bool

text \<open>Assigning a value that is not finite to \<^verbatim>\<open>currentTime\<close> throws a TypeError.\<close>

definition set_currentTime :: "jsnum \<Rightarrow> video_element \<Rightarrow> exn + video_element" where
  "set_currentTime t v = (case t of Fin a \<Rightarrow> Inr (v\<lparr>currentTime := Fin a\<rparr>) | _ \<Rightarrow> Inl TypeError)"

text \<open>
  \<^verbatim>\<open>video.play()\<close>: the element after the call, and the promise returned, if any:
  fulfilled (True) or rejected (False).
\<close>

definition video_play :: "video_element \<Rightarrow> video_element \<times> bool option" where
  "video_play v =
     (let v1 = v\<lparr>play_calls := Suc (play_calls v)\<rparr>;
          v2 = (if autoplay_allowed v then v1\<lparr>paused := False\<rparr> else v1)
      in (v2, if play_returns_promise v then Some (autoplay_allowed v) else None))"

datatype vb_target = VideoElement | Document

datatype vb_handler = OnCanPlayThrough | OnLoadedData | OnCanPlay | BeforeSwapHandler
  | AfterSwapHandler | StartVideoOnInteraction

text \<open>
  The closures handed to \<^verbatim>\<open>setTimeout\<close>, \<^verbatim>\<open>requestIdleCallback\<close> and
  \<^verbatim>\<open>requestAnimationFrame\<close>, the reactions of the promise of \<^verbatim>\<open>play()\<close>, and
  the functions kept in \<^verbatim>\<open>cleanupFunctions\<close>.
\<close>

datatype vb_callback = HidePlaceholder | InitializeVideoBackground | SaveVideoTimeFrame
  | StoreVideoTime | RestoreFrame | EndTransitionFrame

datatype vb_reaction = PlayFulfilled | PlayRejected

datatype vb_cleanup = RemoveVideoListener string vb_handler | ClearTimeoutFn nat
  | RemoveTransitionHandlers

text \<open>
  The manager's fields, the two variables captured by the closures of
  setupViewTransitions, and the parts of the browser the manager acts on: the session
  storage, the listeners it registered (target, event, handler, the \<^verbatim>\<open>once\<close> option),
  pending timers, idle callbacks (with their timeout) and animation frames, the pending
  promise reactions, and the console. \<open>vb_number_toString\<close> is the language's conversion
  of a number to a string.
\<close>

record vb_state =
  vb_video :: "video_element option"
  vb_placeholder :: "element option"
  vb_cfg :: vb_config
  vb_isInitialized :: bool
  vb_isVideoLoading :: bool
  vb_cleanupFunctions :: "vb_cleanup list"
  vb_transitionInProgress :: bool
  vb_saveTimeoutId :: "nat option"
  vb_storage :: session_storage
  vb_listeners :: "(vb_target \<times> string \<times> vb_handler \<times> bool) set"
  vb_timers :: "(nat \<times> int \<times> vb_callback) list"
  vb_next_timer :: nat
  vb_idle_callbacks :: "(int \<times> vb_callback) list"
  vb_frames :: "vb_callback list"
  vb_reactions :: "vb_reaction list"
  vb_has_requestIdleCallback :: bool
  vb_number_toString :: "jsnum \<Rightarrow> string"
  vb_console :: "log_entry list"

definition vb_log :: "log_level \<Rightarrow> string \<Rightarrow> vb_state \<Rightarrow> vb_state" where
  "vb_log l msg st = st\<lparr>vb_console := vb_console st @ [(l, msg)]\<rparr>"

definition vb_setTimeout :: "vb_callback \<Rightarrow> int \<Rightarrow> vb_state \<Rightarrow> nat \<times> vb_state" where
  "vb_setTimeout cb d st =
     (let i = Suc (vb_next_timer st)
      in (i, st\<lparr>vb_timers := vb_timers st @ [(i, d, cb)], vb_next_timer := i\<rparr>))"

definition vb_clearTimeout :: "nat \<Rightarrow> vb_state \<Rightarrow> vb_state" where
  "vb_clearTimeout i st = st\<lparr>vb_timers := filter (\<lambda>t. fst t \<noteq> i) (vb_timers st)\<rparr>"

text \<open>The elements of the page by identifier, as \<^verbatim>\<open>getElementById\<close> finds them.\<close>

record vb_document =
  video_by_id :: "string \<Rightarrow> video_element option"
  placeholder_by_id :: "string \<Rightarrow> element option"

definition hidePlaceholderPermanently :: "vb_state \<Rightarrow> vb_state" where
  "hidePlaceholderPermanently st = (case vb_placeholder st of
       None \<Rightarrow> st
     | Some p \<Rightarrow>
         (let st1 = st\<lparr>vb_placeholder :=
                         Some (p\<lparr>style := (style p)(''opacity'' \<mapsto> ''0'', ''display'' \<mapsto> ''none'')\<rparr>)\<rparr>
          in if ss_in_window (vb_storage st1)
             then (case setItem (vb_storage st1) ''videoReady'' ''true'' of
                     Inl e \<Rightarrow> vb_log Warn ''Failed to store video ready state:'' st1
                   | Inr ss \<Rightarrow> st1\<lparr>vb_storage := ss\<rparr>)
             else st1))"

text \<open>
  ensureVideoPlayback: the reactions registered on the promise of \<^verbatim>\<open>play()\<close> run
  later, so the settled promise is queued.
\<close>

definition ensureVideoPlayback :: "vb_state \<Rightarrow> vb_state" where
  "ensureVideoPlayback st = (case vb_video st of
       None \<Rightarrow> st
     | Some v \<Rightarrow>
         if \<not> paused v then st
         else (let (v', playPromise) = video_play v;
                   st1 = st\<lparr>vb_video := Some v'\<rparr>
               in case playPromise of
                    None \<Rightarrow> st1
                  | Some ok \<Rightarrow> st1\<lparr>vb_reactions := vb_reactions st1
                                    @ [if ok then PlayFulfilled else PlayRejected]\<rparr>))"




definition ready_listeners :: "(vb_target \<times> string \<times> vb_handler \<times> bool) set" where
  "ready_listeners = {(VideoElement, ''canplaythrough'', OnCanPlayThrough, False),
     (VideoElement, ''loadeddata'', OnLoadedData, False),
     (VideoElement, ''canplay'', OnCanPlay, False)}"

definition setupVideoLoading :: "vb_state \<Rightarrow> vb_state outcome" where
  "setupVideoLoading st =
     (case (vb_video st, vb_placeholder st) of
        (Some v, Some p) \<Rightarrow>
          (case getItem (vb_storage st) ''videoReady'' of
             Inl e \<Rightarrow> Throw e st
           | Inr r \<Rightarrow>
               if r = Some ''true'' then Normal (hidePlaceholderPermanently st)
               else
                 (let st1 = st\<lparr>vb_placeholder := Some (p\<lparr>style := (style p)(''opacity'' \<mapsto> ''1'')\<rparr>)\<rparr>;
                      st2 = st1\<lparr>vb_listeners := vb_listeners st1 \<union> ready_listeners,
                               vb_cleanupFunctions := vb_cleanupFunctions st1 @
                                 [RemoveVideoListener ''canplaythrough'' OnCanPlayThrough,
                                  RemoveVideoListener ''loadeddata'' OnLoadedData,
                                  RemoveVideoListener ''canplay'' OnCanPlay]\<rparr>;
                      (fallbackTimeoutId, st3) = vb_setTimeout HidePlaceholder (fallbackTimeout (vb_cfg st2)) st2;
                      st4 = st3\<lparr>vb_cleanupFunctions := vb_cleanupFunctions st3 @ [ClearTimeoutFn fallbackTimeoutId]\<rparr>
                  in Normal (ensureVideoPlayback st4)))
      | _ \<Rightarrow> Normal st)"

definition setupViewTransitions :: "vb_state \<Rightarrow> vb_state" where
  "setupViewTransitions st = (case vb_video st of
       None \<Rightarrow> st
     | Some v \<Rightarrow> st\<lparr>vb_transitionInProgress := False, vb_saveTimeoutId := None,
                    vb_listeners := vb_listeners st
                      \<union> {(Document, ''astro:before-swap'', BeforeSwapHandler, False),
                          (Document, ''astro:after-swap'', AfterSwapHandler, False)},
                    vb_cleanupFunctions := vb_cleanupFunctions st @ [RemoveTransitionHandlers]\<rparr>)"

text \<open>initializeVideoBackground, the callback that init defers.\<close>

definition initializeVideoBackground_try :: "vb_document \<Rightarrow> vb_state \<Rightarrow> vb_state outcome" where
  "initializeVideoBackground_try doc st =
     (let st1 = st\<lparr>vb_video := video_by_id doc (videoId (vb_cfg st))\<rparr>;
          st2 = st1\<lparr>vb_placeholder := placeholder_by_id doc (placeholderId (vb_cfg st1))\<rparr>
      in if vb_video st2 = None \<or> vb_placeholder st2 = None
         then Normal (vb_log Warn ''VideoBackgroundManager: Required elements not found'' st2)
         else (case setupVideoLoading st2 of
                 Throw e s \<Rightarrow> Throw e s
               | Normal st3 \<Rightarrow> Normal ((setupViewTransitions st3)\<lparr>vb_isInitialized := True\<rparr>)))"

definition initializeVideoBackground :: "vb_document \<Rightarrow> vb_state \<Rightarrow> vb_state outcome" where
  "initializeVideoBackground doc st =
     (if vb_isInitialized st then Normal st
      else try_catch (initializeVideoBackground_try doc st)
             (\<lambda>e s. Normal (vb_log Error ''VideoBackgroundManager initialization failed:'' s)))"

text \<open>
  init: nothing in it throws; it only hands initializeVideoBackground to the idle queue, or
  to a timer where the browser has no \<^verbatim>\<open>requestIdleCallback\<close>.
\<close>

definition vb_init :: "vb_state \<Rightarrow> vb_state outcome" where
  "vb_init st =
     (if vb_isInitialized st then Normal st
      else if vb_has_requestIdleCallback st
      then Normal (st\<lparr>vb_idle_callbacks := vb_idle_callbacks st @ [(1000, InitializeVideoBackground)]\<rparr>)
      else Normal (snd (vb_setTimeout InitializeVideoBackground 500 st)))"

definition isReady :: "vb_state \<Rightarrow> bool" where
  "isReady st = (vb_isInitialized st \<and> vb_video st \<noteq> None \<and> vb_placeholder st \<noteq> None)"

definition wasVideoReady :: "vb_state \<Rightarrow> bool" where
  "wasVideoReady st =
     (if \<not> ss_in_window (vb_storage st) then False
      else (case getItem (vb_storage st) ''videoReady'' of
              Inl e \<Rightarrow> False
            | Inr r \<Rightarrow> r = Some ''true''))"

text \<open>restoreVideoState: the body of its \<^verbatim>\<open>try\<close> block, then the method.\<close>

definition restore_playback :: "vb_state \<Rightarrow> vb_state" where
  "restore_playback st = (case vb_video st of
       None \<Rightarrow> st
     | Some v \<Rightarrow> if paused v then ensureVideoPlayback st else st)"

definition restoreVideoState_try :: "video_element \<Rightarrow> vb_state \<Rightarrow> vb_state outcome" where
  "restoreVideoState_try v st =
     (let wasReady = wasVideoReady st;
          st1 = (case vb_placeholder st of
                   None \<Rightarrow> st
                 | Some p \<Rightarrow>
                     if wasReady
                     then st\<lparr>vb_placeholder := Some (p\<lparr>style := (style p)(''display'' \<mapsto> ''none'',
                                                                         ''opacity'' \<mapsto> ''0'')\<rparr>)\<rparr>
                     else st)
      in if ss_in_window (vb_storage st1)
         then (case getItem (vb_storage st1) ''videoTime'' of
                 Inl e \<Rightarrow> Throw e st1
               | Inr storedTime \<Rightarrow>
                   (case storedTime of
                      None \<Rightarrow> Normal (restore_playback st1)
                    | Some s \<Rightarrow>
                        if s = [] then Normal (restore_playback st1)
                        else (let time = parseFloat s
                              in if \<not> isNaN time
                                    \<and> js_gt (js_abs (js_sub (currentTime v) time)) (Fin (1 / 10))
                                 then (case set_currentTime time v of
                                         Inl e \<Rightarrow> Throw e st1
                                       | Inr v' \<Rightarrow> Normal (restore_playback (st1\<lparr>vb_video := Some v'\<rparr>)))
                                 else Normal (restore_playback st1))))
         else Normal (restore_playback st1))"

definition restoreVideoState :: "vb_state \<Rightarrow> vb_state" where
  "restoreVideoState st = (case vb_video st of
       None \<Rightarrow> st
     | Some v \<Rightarrow>
         (case restoreVideoState_try v st of
            Normal s \<Rightarrow> s
          | Throw e s \<Rightarrow> vb_log Warn ''Failed to restore video state:'' s))"





definition vb_callback_run :: "vb_document \<Rightarrow> vb_callback \<Rightarrow> vb_state \<Rightarrow> vb_state outcome" where
  "vb_callback_run doc cb st = (case cb of
       HidePlaceholder \<Rightarrow> Normal (hidePlaceholderPermanently st)
     | InitializeVideoBackground \<Rightarrow> initializeVideoBackground doc st
     | SaveVideoTimeFrame \<Rightarrow>
         (if vb_video st \<noteq> None \<and> ss_in_window (vb_storage st)
          then (let st1 = (case vb_saveTimeoutId st of
                             None \<Rightarrow> st
                           | Some i \<Rightarrow> if i = 0 then st else vb_clearTimeout i st);
                    (tid, st2) = vb_setTimeout StoreVideoTime 16 st1
                in Normal (st2\<lparr>vb_saveTimeoutId := Some tid\<rparr>))
          else Normal st)
     | StoreVideoTime \<Rightarrow>
         (case vb_video st of
            None \<Rightarrow> Normal st
          | Some v \<Rightarrow>
              (case setItem (vb_storage st) ''videoTime'' (vb_number_toString st (currentTime v)) of
                 Inl e \<Rightarrow> Throw e st
               | Inr ss \<Rightarrow> Normal (st\<lparr>vb_storage := ss\<rparr>)))
     | RestoreFrame \<Rightarrow>
         (if vb_video st = None then Normal (st\<lparr>vb_transitionInProgress := False\<rparr>)
          else (let st1 = restoreVideoState st
                in Normal (st1\<lparr>vb_frames := vb_frames st1 @ [EndTransitionFrame]\<rparr>)))
     | EndTransitionFrame \<Rightarrow> Normal (st\<lparr>vb_transitionInProgress := False\<rparr>))"


text \<open>destroy runs the cleanup functions collected so far.\<close>

definition vb_cleanup_run :: "vb_cleanup \<Rightarrow> vb_state \<Rightarrow> vb_state" where
  "vb_cleanup_run c st = (case c of
       RemoveVideoListener ev h \<Rightarrow>
         (if vb_video st \<noteq> None
          then st\<lparr>vb_listeners := vb_listeners st - {(VideoElement, ev, h, False)}\<rparr>
          else st)
     | ClearTimeoutFn i \<Rightarrow> vb_clearTimeout i st
     | RemoveTransitionHandlers \<Rightarrow>
         (let st1 = st\<lparr>vb_listeners := vb_listeners st
                        - {(Document, ''astro:before-swap'', BeforeSwapHandler, False),
                           (Document, ''astro:after-swap'', AfterSwapHandler, False)}\<rparr>
          in case vb_saveTimeoutId st1 of
               None \<Rightarrow> st1
             | Some i \<Rightarrow> if i = 0 then st1 else vb_clearTimeout i st1))"

definition destroy :: "vb_state \<Rightarrow> vb_state" where
  "destroy st = (fold vb_cleanup_run (vb_cleanupFunctions st) st)
     \<lparr>vb_cleanupFunctions := [], vb_isInitialized := False, vb_video := None, vb_placeholder := None\<rparr>"

text \<open>
  Concrete pages: a paused video at 12.5 s whose autoplay is refused, a placeholder, an
  empty session storage; the same with a storage that has no quota left.
\<close>

definition video_example :: video_element where
  "video_example = \<lparr>paused = True, currentTime = Fin (25 / 2), play_calls = 0,
     play_returns_promise = True, autoplay_allowed = False\<rparr>"

definition storage_example :: session_storage where
  "storage_example = \<lparr>ss_in_window = True, ss_items = Map.empty, ss_get_throws = False,
     ss_set_throws = False\<rparr>"

definition integer_toString :: "jsnum \<Rightarrow> string" where
  "integer_toString x = (case x of
       NaN \<Rightarrow> ''NaN'' | PosInf \<Rightarrow> ''Infinity'' | NegInf \<Rightarrow> ''-Infinity''
     | Fin a \<Rightarrow> js_int_to_string \<lfloor>a\<rfloor>)"

definition vb_example :: vb_state where
  "vb_example = \<lparr>vb_video = Some video_example, vb_placeholder = Some blank_element,
     vb_cfg = vb_make_config \<lparr>in_videoId = None, in_placeholderId = None, in_fadeDuration = None,
       in_fallbackTimeout = None, in_loadDelay = None\<rparr>,
     vb_isInitialized = False, vb_isVideoLoading = False, vb_cleanupFunctions = [],
     vb_transitionInProgress = False, vb_saveTimeoutId = None,
     vb_storage = storage_example,
     vb_listeners = {}, vb_timers = [], vb_next_timer = 0, vb_idle_callbacks = [], vb_frames = [],
     vb_reactions = [], vb_has_requestIdleCallback = True,
     vb_number_toString = integer_toString, vb_console = []\<rparr>"




definition vb_document_example :: vb_document where
  "vb_document_example = \<lparr>video_by_id = (\<lambda>i. if i = ''bgvid'' then Some video_example else None),
     placeholder_by_id = (\<lambda>i. if i = ''video-placeholder'' then Some blank_element else None)\<rparr>"


text \<open>The placeholder is hidden: inline opacity 0 and display none.\<close>

definition placeholder_hidden :: "vb_state \<Rightarrow> bool" where
  "placeholder_hidden st = (case vb_placeholder st of
       None \<Rightarrow> False
     | Some p \<Rightarrow> style p ''opacity'' = Some ''0'' \<and> style p ''display'' = Some ''none'')"


section \<open>Image preloader (class ImagePreloader)\<close>

record ip_config =
  rootMargin :: string
  enableHoverPreload :: bool
  preloadAttribute :: string
  triggerClass :: string

text \<open>
  A \<^verbatim>\<open>PreloadedImage\<close> object. The objects live in a store and the cache maps a
  URL to a reference into it, because the handlers of an \<^verbatim>\<open>Image\<close> keep updating
  their object after the cache has dropped or replaced it. The object made for the
  \<open>i\<close>-th \<^verbatim>\<open>Image\<close> has reference \<open>i\<close>.
\<close>

record preloaded_image =
  pi_src :: string
  pi_element :: nat
  pi_loaded :: bool
  pi_loading :: bool

text \<open>
  An \<^verbatim>\<open>Image\<close> made by \<^verbatim>\<open>new Image()\<close>: the URL assigned to it (the assignment
  starts the fetch), and what its \<^verbatim>\<open>onload\<close> and \<^verbatim>\<open>onerror\<close> closures captured:
  the promise of the call that made it and that call's target element.
\<close>

record preloader_image =
  im_src :: string
  im_promise :: nat
  im_target :: "nat option"

datatype promise_state = Pending | Resolved nat | Rejected

text \<open>An image element of the page: its attributes and its \<^verbatim>\<open>src\<close> (empty when unset).\<close>

record img_element =
  img_attributes :: "string \<rightharpoonup> string"
  img_src :: string

datatype ip_handler = HandleMouseEnter | LegacyMouseEnter "nat list"

datatype ip_callback = InitializeImagePreloader

text \<open>
  The preloader's fields (the cache \<open>ip_preloadedImages\<close> with the object store
  \<open>ip_objects\<close>), the images it created, the promises its calls returned, the
  \<^verbatim>\<open>load\<close>/\<^verbatim>\<open>error\<close> listeners that later calls attached to an image in flight
  (image, promise), and the parts of the page it acts on.
\<close>

record ip_state =
  ip_cfg :: ip_config
  ip_observer :: bool
  ip_observing :: "nat set"
  ip_observedElements :: "nat set"
  ip_isInitialized :: bool
  ip_preloadedImages :: "string \<rightharpoonup> nat"
  ip_objects :: "nat \<Rightarrow> preloaded_image"
  ip_images :: "preloader_image list"
  ip_promises :: "promise_state list"
  ip_waiting :: "(nat \<times> nat) list"
  ip_imgs :: "nat \<Rightarrow> img_element"
  ip_listeners :: "(nat \<times> string \<times> ip_handler \<times> bool) set"
  ip_timers :: "(int \<times> ip_callback) list"
  ip_idle_callbacks :: "(int \<times> ip_callback) list"
  ip_console :: "log_entry list"

definition ip_log :: "log_level \<Rightarrow> string \<Rightarrow> ip_state \<Rightarrow> ip_state" where
  "ip_log l msg st = st\<lparr>ip_console := ip_console st @ [(l, msg)]\<rparr>"

text \<open>
  The page and the window as the preloader sees them: which selectors parse, the trigger
  elements of a class, the image elements that a selector finds inside a trigger, which
  interfaces the window has, and whether the observer accepts its options.
\<close>

record ip_document =
  ip_selector_valid :: "string \<Rightarrow> bool"
  triggers_matching :: "string \<Rightarrow> nat list"
  images_matching :: "nat \<Rightarrow> string \<Rightarrow> nat list"
  has_IntersectionObserver :: bool
  has_requestIdleCallback :: bool
  observer_options_valid :: "string \<Rightarrow> bool"

definition document_querySelectorAll :: "ip_document \<Rightarrow> string \<Rightarrow> exn + nat list" where
  "document_querySelectorAll doc sel =
     (if ip_selector_valid doc sel then Inr (triggers_matching doc sel) else Inl SyntaxError)"

definition element_querySelectorAll :: "ip_document \<Rightarrow> nat \<Rightarrow> string \<Rightarrow> exn + nat list" where
  "element_querySelectorAll doc el sel =
     (if ip_selector_valid doc sel then Inr (images_matching doc el sel) else Inl SyntaxError)"

definition set_target_src :: "nat option \<Rightarrow> string \<Rightarrow> ip_state \<Rightarrow> ip_state" where
  "set_target_src targetElement src st = (case targetElement of
       None \<Rightarrow> st
     | Some t \<Rightarrow> if img_src (ip_imgs st t) = [] then st\<lparr>ip_imgs := (ip_imgs st)(t := (ip_imgs st t)\<lparr>img_src := src\<rparr>)\<rparr>
                 else st)"

definition settle :: "nat \<Rightarrow> promise_state \<Rightarrow> promise_state list \<Rightarrow> promise_state list" where
  "settle k v ps = (if k < length ps \<and> ps ! k = Pending then ps[k := v] else ps)"

text \<open>preloadImage: the promise it returns is the last one of \<open>ip_promises\<close>.\<close>

definition preloadImage :: "string \<Rightarrow> nat option \<Rightarrow> ip_state \<Rightarrow> ip_state" where
  "preloadImage src targetElement st =
     (let k = length (ip_promises st);
          cached = map_option (ip_objects st) (ip_preloadedImages st src)
      in if (case cached of None \<Rightarrow> False | Some c \<Rightarrow> pi_loaded c)
         then (set_target_src targetElement src st)
                \<lparr>ip_promises := ip_promises st @ [Resolved (pi_element (the cached))]\<rparr>
         else if (case cached of None \<Rightarrow> False | Some c \<Rightarrow> pi_loading c)
         then st\<lparr>ip_waiting := ip_waiting st @ [(pi_element (the cached), k)],
                 ip_promises := ip_promises st @ [Pending]\<rparr>
         else (let i = length (ip_images st);
                   preloadData = \<lparr>pi_src = src, pi_element = i, pi_loaded = False, pi_loading = True\<rparr>
               in st\<lparr>ip_images := ip_images st @ [\<lparr>im_src = src, im_promise = k, im_target = targetElement\<rparr>],
                      ip_objects := (ip_objects st)(i := preloadData),
                      ip_preloadedImages := (ip_preloadedImages st)(src \<mapsto> i),
                      ip_promises := ip_promises st @ [Pending]\<rparr>))"

text \<open>
  The \<^verbatim>\<open>load\<close> event of image \<open>i\<close>: its \<^verbatim>\<open>onload\<close> closure runs, then the
  listeners that waiting calls attached. The \<^verbatim>\<open>error\<close> event likewise.
\<close>

definition waiting_on :: "nat \<Rightarrow> ip_state \<Rightarrow> nat list" where
  "waiting_on i st = map snd (filter (\<lambda>w. fst w = i) (ip_waiting st))"

definition image_onload :: "nat \<Rightarrow> ip_state \<Rightarrow> ip_state" where
  "image_onload i st =
     (if i < length (ip_images st)
      then (let im = ip_images st ! i;
                st1 = st\<lparr>ip_objects := (ip_objects st)(i := (ip_objects st i)\<lparr>pi_loaded := True, pi_loading := False\<rparr>)\<rparr>;
                st2 = set_target_src (im_target im) (im_src im) st1
            in st2\<lparr>ip_promises := fold (\<lambda>k. settle k (Resolved i)) (im_promise im # waiting_on i st2) (ip_promises st2)\<rparr>)
      else st)"

definition image_onerror :: "nat \<Rightarrow> ip_state \<Rightarrow> ip_state" where
  "image_onerror i st =
     (if i < length (ip_images st)
      then (let im = ip_images st ! i;
                st1 = st\<lparr>ip_objects := (ip_objects st)(i := (ip_objects st i)\<lparr>pi_loading := False\<rparr>)\<rparr>;
                st2 = st1\<lparr>ip_preloadedImages := (ip_preloadedImages st1)(im_src im := None)\<rparr>;
                st3 = ip_log Warn ''Failed to preload image:'' st2
            in st3\<lparr>ip_promises := fold (\<lambda>k. settle k Rejected) (im_promise im # waiting_on i st3) (ip_promises st3)\<rparr>)
      else st)"

definition clearCache :: "ip_state \<Rightarrow> ip_state" where
  "clearCache st = st\<lparr>ip_preloadedImages := Map.empty\<rparr>"

definition ip_destroy :: "ip_state \<Rightarrow> ip_state" where
  "ip_destroy st =
     (let st1 = (if ip_observer st then st\<lparr>ip_observing := {}, ip_observer := False\<rparr> else st)
      in (clearCache st1)\<lparr>ip_observedElements := {}, ip_isInitialized := False\<rparr>)"

text \<open>
  preloadImagesInElement: the images inside the element that carry the preload attribute
  are preloaded in document order; an attribute name that makes no selector throws.
\<close>

fun preload_each :: "string \<Rightarrow> nat list \<Rightarrow> ip_state \<Rightarrow> ip_state" where
  "preload_each attr [] st = st"
| "preload_each attr (img # imgs) st =
     preload_each attr imgs
       (case img_attributes (ip_imgs st img) attr of
          None \<Rightarrow> st
        | Some src \<Rightarrow> if src \<noteq> [] \<and> ip_preloadedImages st src = None
                      then preloadImage src (Some img) st else st)"

definition preloadImagesInElement :: "ip_document \<Rightarrow> nat \<Rightarrow> ip_state \<Rightarrow> ip_state outcome" where
  "preloadImagesInElement doc el st =
     (case element_querySelectorAll doc el (''['' @ preloadAttribute (ip_cfg st) @ '']'') of
        Inl e \<Rightarrow> Throw e st
      | Inr preloadImages \<Rightarrow> Normal (preload_each (preloadAttribute (ip_cfg st)) preloadImages st))"

text \<open>The handler that the legacy fallback registers, over the images it captured.\<close>

fun legacy_preload_each :: "string \<Rightarrow> nat list \<Rightarrow> ip_state \<Rightarrow> ip_state" where
  "legacy_preload_each attr [] st = st"
| "legacy_preload_each attr (img # imgs) st =
     legacy_preload_each attr imgs
       (case img_attributes (ip_imgs st img) attr of
          None \<Rightarrow> st
        | Some src \<Rightarrow> if src \<noteq> [] \<and> img_src (ip_imgs st img) = [] \<and> ip_preloadedImages st src = None
                      then preloadImage src (Some img) st else st)"

definition setupIntersectionObserver :: "ip_document \<Rightarrow> ip_state \<Rightarrow> ip_state outcome" where
  "setupIntersectionObserver doc st =
     (if observer_options_valid doc (rootMargin (ip_cfg st))
      then Normal (st\<lparr>ip_observer := True, ip_observing := {}\<rparr>)
      else Throw SyntaxError st)"

definition observeElements :: "ip_document \<Rightarrow> ip_state \<Rightarrow> ip_state outcome" where
  "observeElements doc st =
     (if \<not> ip_observer st then Normal st
      else (case document_querySelectorAll doc (''.'' @ triggerClass (ip_cfg st)) of
              Inl e \<Rightarrow> Throw e st
            | Inr triggers \<Rightarrow>
                Normal (st\<lparr>ip_observing := ip_observing st \<union> (set triggers - ip_observedElements st),
                          ip_observedElements := ip_observedElements st \<union> set triggers\<rparr>)))"

definition setupHoverPreloading :: "ip_document \<Rightarrow> ip_state \<Rightarrow> ip_state outcome" where
  "setupHoverPreloading doc st =
     (case document_querySelectorAll doc (''.'' @ triggerClass (ip_cfg st)) of
        Inl e \<Rightarrow> Throw e st
      | Inr triggers \<Rightarrow>
          Normal (st\<lparr>ip_listeners := ip_listeners st
                     \<union> (\<lambda>t. (t, ''mouseenter'', HandleMouseEnter, True)) ` set triggers\<rparr>))"

text \<open>
  setupLegacyHoverPreloading: a trigger without preload images gets no listener; the
  listeners added before a throwing \<^verbatim>\<open>querySelectorAll\<close> stay.
\<close>

fun legacy_each :: "ip_document \<Rightarrow> nat list \<Rightarrow> ip_state \<Rightarrow> ip_state outcome" where
  "legacy_each doc [] st = Normal st"
| "legacy_each doc (t # ts) st =
     (case element_querySelectorAll doc t (''['' @ preloadAttribute (ip_cfg st) @ '']'') of
        Inl e \<Rightarrow> Throw e st
      | Inr preloadImages \<Rightarrow>
          legacy_each doc ts
            (if preloadImages = [] then st
             else st\<lparr>ip_listeners := insert (t, ''mouseenter'', LegacyMouseEnter preloadImages, False)
                                       (ip_listeners st)\<rparr>))"

definition setupLegacyHoverPreloading :: "ip_document \<Rightarrow> ip_state \<Rightarrow> ip_state outcome" where
  "setupLegacyHoverPreloading doc st =
     (case document_querySelectorAll doc (''.'' @ triggerClass (ip_cfg st)) of
        Inl e \<Rightarrow> Throw e st
      | Inr triggers \<Rightarrow> legacy_each doc triggers st)"

text \<open>initializeImagePreloader, the callback that init defers: the \<^verbatim>\<open>try\<close> block first.\<close>

definition initializeImagePreloader_try :: "ip_document \<Rightarrow> ip_state \<Rightarrow> ip_state outcome" where
  "initializeImagePreloader_try doc st =
     (case setupIntersectionObserver doc st of
        Throw e s \<Rightarrow> Throw e s
      | Normal st1 \<Rightarrow>
     (case observeElements doc st1 of
        Throw e s \<Rightarrow> Throw e s
      | Normal st2 \<Rightarrow>
     (case (if enableHoverPreload (ip_cfg st2) then setupHoverPreloading doc st2 else Normal st2) of
        Throw e s \<Rightarrow> Throw e s
      | Normal st3 \<Rightarrow> Normal (st3\<lparr>ip_isInitialized := True\<rparr>))))"

definition initializeImagePreloader :: "ip_document \<Rightarrow> ip_state \<Rightarrow> ip_state outcome" where
  "initializeImagePreloader doc st =
     (if ip_isInitialized st then Normal st
      else if \<not> has_IntersectionObserver doc
      then setupLegacyHoverPreloading doc
             (ip_log Warn ''IntersectionObserver not supported, falling back to hover preloading'' st)
      else try_catch (initializeImagePreloader_try doc st)
             (\<lambda>e s. setupLegacyHoverPreloading doc
                       (ip_log Error ''ImagePreloader initialization failed:'' s)))"

text \<open>init: nothing in it throws; it only defers initializeImagePreloader.\<close>

definition ip_init :: "ip_document \<Rightarrow> ip_state \<Rightarrow> ip_state outcome" where
  "ip_init doc st =
     (if ip_isInitialized st then Normal st
      else if has_requestIdleCallback doc
      then Normal (st\<lparr>ip_idle_callbacks := ip_idle_callbacks st @ [(1500, InitializeImagePreloader)]\<rparr>)
      else Normal (st\<lparr>ip_timers := ip_timers st @ [(1000, InitializeImagePreloader)]\<rparr>))"

text \<open>The observer reports an entry for a target it observes.\<close>

definition observer_entry :: "ip_document \<Rightarrow> nat \<Rightarrow> bool \<Rightarrow> ip_state \<Rightarrow> ip_state outcome" where
  "observer_entry doc target isIntersecting st =
     (if isIntersecting
      then (case preloadImagesInElement doc target st of
              Throw e s \<Rightarrow> Throw e s
            | Normal st1 \<Rightarrow> Normal (if ip_observer st1 then st1\<lparr>ip_observing := ip_observing st1 - {target}\<rparr>
                                 else st1))
      else Normal st)"

text \<open>The handlers of the \<^verbatim>\<open>mouseenter\<close> listeners.\<close>

definition ip_handle :: "ip_document \<Rightarrow> nat \<Rightarrow> ip_handler \<Rightarrow> ip_state \<Rightarrow> ip_state outcome" where
  "ip_handle doc trigger h st = (case h of
       HandleMouseEnter \<Rightarrow> preloadImagesInElement doc trigger st
     | LegacyMouseEnter preloadImages \<Rightarrow>
         Normal (legacy_preload_each (preloadAttribute (ip_cfg st)) preloadImages st))"

text \<open>
  The cache is well formed: a cached object is stored under its own URL, belongs to an
  image that was created for that URL, and is loaded or loading.
\<close>

definition cache_wf :: "ip_state \<Rightarrow> bool" where
  "cache_wf st = (\<forall>src r. ip_preloadedImages st src = Some r \<longrightarrow>
       r < length (ip_images st) \<and> im_src (ip_images st ! r) = src
       \<and> pi_src (ip_objects st r) = src \<and> pi_element (ip_objects st r) = r
       \<and> (pi_loaded (ip_objects st r) \<or> pi_loading (ip_objects st r)))"

text \<open>A fresh preloader with the default configuration, on a page with two image elements.\<close>

definition ip_example :: ip_state where
  "ip_example = \<lparr>ip_cfg = \<lparr>rootMargin = ''50px'', enableHoverPreload = True,
       preloadAttribute = ''data-preload-src'', triggerClass = ''preload-trigger''\<rparr>,
     ip_observer = False, ip_observing = {}, ip_observedElements = {}, ip_isInitialized = False,
     ip_preloadedImages = Map.empty,
     ip_objects = (\<lambda>i. \<lparr>pi_src = '''', pi_element = i, pi_loaded = False, pi_loading = False\<rparr>),
     ip_images = [], ip_promises = [], ip_waiting = [],
     ip_imgs = (\<lambda>i. \<lparr>img_attributes = [''data-preload-src'' \<mapsto> ''/a.jpg''], img_src = ''''\<rparr>),
     ip_listeners = {}, ip_timers = [], ip_idle_callbacks = [], ip_console = []\<rparr>"

text \<open>A page with one trigger holding image 0, in a window without IntersectionObserver.\<close>

definition ip_document_legacy :: ip_document where
  "ip_document_legacy = \<lparr>ip_selector_valid = (\<lambda>s. True),
     triggers_matching = (\<lambda>s. if s = ''.preload-trigger'' then [0] else []),
     images_matching = (\<lambda>t s. if s = ''[data-preload-src]'' then [0] else []),
     has_IntersectionObserver = False, has_requestIdleCallback = False,
     observer_options_valid = (\<lambda>m. True)\<rparr>"

section \<open>Progressive loader (progressive-loader.ts)\<close>

datatype priority = critical | high | medium | low

text \<open>The load functions that initProgressiveLoader hands to the loader.\<close>

datatype load_function = VideoBackgroundLoad | ImagePreloaderLoad | MobileNavigationLoad

record loading_tier =
  tier_name :: string
  tier_priority :: priority
  loadFunction :: load_function
  tier_timeout :: int

record pl_config =
  enableIdleCallback :: bool
  fallbackDelay :: int
  maxConcurrent :: int

text \<open>
  What the loader hands to the browser, and what it does, in order: a call of a tier's
  load function, a \<^verbatim>\<open>setTimeout\<close> with its delay, a \<^verbatim>\<open>requestIdleCallback\<close> with
  its timeout.
\<close>

datatype pl_task = LoadTier loading_tier | LoadTierWhenIdle loading_tier

datatype pl_event = Called loading_tier | SetTimeout pl_task int | RequestIdleCallback pl_task int

text \<open>
  The loader's fields. Arrays are objects in a store: \<^verbatim>\<open>sort\<close> works in place and
  returns the array it was given, so \<^verbatim>\<open>sortedQueue\<close> and \<^verbatim>\<open>this.loadingQueue\<close>
  are the same array until loadTier assigns a new, filtered array to the field; a push
  made meanwhile is seen through both. \<open>pl_suspended\<close> is the processQueue call
  that is waiting at its \<^verbatim>\<open>await\<close>: the array \<^verbatim>\<open>sortedQueue\<close> refers to, the
  critical tier whose load is awaited, and the critical tiers still to come.
\<close>

record pl_state =
  pl_cfg :: pl_config
  pl_arrays :: "nat \<Rightarrow> loading_tier list"
  pl_next_array :: nat
  pl_loadingQueue :: nat
  pl_isProcessing :: bool
  pl_loadedTiers :: "string set"
  pl_suspended :: "(nat \<times> loading_tier \<times> loading_tier list) option"
  pl_trace :: "pl_event list"
  pl_has_requestIdleCallback :: bool
  pl_console :: "log_entry list"

definition loadingQueue :: "pl_state \<Rightarrow> loading_tier list" where
  "loadingQueue st = pl_arrays st (pl_loadingQueue st)"

definition pl_emit :: "pl_event \<Rightarrow> pl_state \<Rightarrow> pl_state" where
  "pl_emit e st = st\<lparr>pl_trace := pl_trace st @ [e]\<rparr>"

fun priorityOrder :: "priority \<Rightarrow> nat" where
  "priorityOrder critical = 0"
| "priorityOrder high = 1"
| "priorityOrder medium = 2"
| "priorityOrder low = 3"

text \<open>
  loadTier, in two steps: up to its \<^verbatim>\<open>await\<close> (the load function is called), and
  from the moment the promise of the load function settles (\<open>ok\<close>: fulfilled).
\<close>

definition loadTier_call :: "loading_tier \<Rightarrow> pl_state \<Rightarrow> pl_state" where
  "loadTier_call tier st = pl_emit (Called tier) st"

definition loadTier_settled :: "loading_tier \<Rightarrow> bool \<Rightarrow> pl_state \<Rightarrow> pl_state" where
  "loadTier_settled tier ok st =
     (if ok
      then st\<lparr>pl_loadedTiers := insert (tier_name tier) (pl_loadedTiers st),
              pl_arrays := (pl_arrays st)(pl_next_array st :=
                              filter (\<lambda>t. tier_name t \<noteq> tier_name tier) (loadingQueue st)),
              pl_loadingQueue := pl_next_array st,
              pl_next_array := Suc (pl_next_array st),
              pl_console := pl_console st @ [(Debug, ''Loaded tier: '' @ tier_name tier)]\<rparr>
      else st\<lparr>pl_console := pl_console st @ [(Warn, ''Failed to load tier: '' @ tier_name tier)]\<rparr>)"

definition loadTierWhenIdle :: "loading_tier \<Rightarrow> pl_state \<Rightarrow> pl_state" where
  "loadTierWhenIdle tier st =
     (if enableIdleCallback (pl_cfg st) \<and> pl_has_requestIdleCallback st
      then pl_emit (RequestIdleCallback (LoadTier tier) (tier_timeout tier)) st
      else pl_emit (SetTimeout (LoadTier tier) (fallbackDelay (pl_cfg st))) st)"

text \<open>The body of the second loop of processQueue, for one tier.\<close>

definition schedule_tier :: "loading_tier \<Rightarrow> pl_state \<Rightarrow> pl_state" where
  "schedule_tier tier st =
     (if tier_priority tier = high then pl_emit (SetTimeout (LoadTier tier) 100) st
      else if tier_priority tier = medium then loadTierWhenIdle tier st
      else pl_emit (SetTimeout (LoadTierWhenIdle tier) 2000) st)"

text \<open>
  processQueue after its first loop: the remaining tiers are filtered out of the array
  \<^verbatim>\<open>sortedQueue\<close> refers to, scheduled in order, and the \<^verbatim>\<open>finally\<close> block
  clears the flag.
\<close>

definition schedule_remaining :: "nat \<Rightarrow> pl_state \<Rightarrow> pl_state" where
  "schedule_remaining sortedQueue st =
     (fold schedule_tier (filter (\<lambda>t. tier_priority t \<noteq> critical) (pl_arrays st sortedQueue)) st)
       \<lparr>pl_isProcessing := False\<rparr>"

text \<open>The first loop: the next critical tier is loaded and awaited, or the loop is over.\<close>

definition await_criticals :: "nat \<Rightarrow> loading_tier list \<Rightarrow> pl_state \<Rightarrow> pl_state" where
  "await_criticals sortedQueue criticalTiers st = (case criticalTiers of
       [] \<Rightarrow> schedule_remaining sortedQueue st
     | tier # rest \<Rightarrow> (loadTier_call tier st)\<lparr>pl_suspended := Some (sortedQueue, tier, rest)\<rparr>)"

definition processQueue :: "pl_state \<Rightarrow> pl_state" where
  "processQueue st =
     (if pl_isProcessing st \<or> loadingQueue st = [] then st
      else (let sortedQueue = pl_loadingQueue st;
                st1 = st\<lparr>pl_isProcessing := True,
                         pl_arrays := (pl_arrays st)(sortedQueue :=
                                        sort_key (\<lambda>t. priorityOrder (tier_priority t)) (loadingQueue st))\<rparr>;
                criticalTiers = filter (\<lambda>t. tier_priority t = critical) (pl_arrays st1 sortedQueue)
            in await_criticals sortedQueue criticalTiers st1))"

definition addTier :: "loading_tier \<Rightarrow> pl_state \<Rightarrow> pl_state" where
  "addTier tier st =
     (if tier_name tier \<in> pl_loadedTiers st then st
      else processQueue (st\<lparr>pl_arrays := (pl_arrays st)(pl_loadingQueue st := loadingQueue st @ [tier])\<rparr>))"

text \<open>
  The load awaited by the suspended processQueue settles: loadTier finishes, and
  processQueue goes on with the next critical tier or with the remaining tiers.
\<close>

definition awaited_settled :: "bool \<Rightarrow> pl_state \<Rightarrow> pl_state" where
  "awaited_settled ok st = (case pl_suspended st of
       None \<Rightarrow> st
     | Some (sortedQueue, tier, rest) \<Rightarrow>
         await_criticals sortedQueue rest (loadTier_settled tier ok (st\<lparr>pl_suspended := None\<rparr>)))"

text \<open>A scheduled task runs.\<close>

definition pl_run_task :: "pl_task \<Rightarrow> pl_state \<Rightarrow> pl_state" where
  "pl_run_task task st = (case task of
       LoadTier tier \<Rightarrow> loadTier_call tier st
     | LoadTierWhenIdle tier \<Rightarrow> loadTierWhenIdle tier st)"

text \<open>
  One run of processQueue to its end: during each await, the tiers of \<open>added\<close> are
  added by other code, then the awaited load settles.
\<close>

fun run_awaits :: "(loading_tier list \<times> bool) list \<Rightarrow> pl_state \<Rightarrow> pl_state" where
  "run_awaits [] st = st"
| "run_awaits ((added, ok) # rest) st = run_awaits rest (awaited_settled ok (fold addTier added st))"

text \<open>The event that schedules a tier, as a function of the configuration and the window.\<close>

definition schedule_event :: "pl_config \<Rightarrow> bool \<Rightarrow> loading_tier \<Rightarrow> pl_event" where
  "schedule_event cfg has_ric tier =
     (if tier_priority tier = high then SetTimeout (LoadTier tier) 100
      else if tier_priority tier = medium
      then (if enableIdleCallback cfg \<and> has_ric then RequestIdleCallback (LoadTier tier) (tier_timeout tier)
            else SetTimeout (LoadTier tier) (fallbackDelay cfg))
      else SetTimeout (LoadTierWhenIdle tier) 2000)"

text \<open>The constructor, and the tiers of \<^verbatim>\<open>createLoadingTiers\<close>.\<close>

definition new_ProgressiveLoader :: "pl_config \<Rightarrow> bool \<Rightarrow> pl_state" where
  "new_ProgressiveLoader cfg has_ric = \<lparr>pl_cfg = cfg, pl_arrays = (\<lambda>r. []), pl_next_array = 1,
     pl_loadingQueue = 0, pl_isProcessing = False, pl_loadedTiers = {}, pl_suspended = None,
     pl_trace = [], pl_has_requestIdleCallback = has_ric, pl_console = []\<rparr>"

definition default_pl_config :: pl_config where
  "default_pl_config = \<lparr>enableIdleCallback = True, fallbackDelay = 1000, maxConcurrent = 2\<rparr>"

definition createLoadingTier :: "priority \<Rightarrow> string \<Rightarrow> load_function \<Rightarrow> loading_tier" where
  "createLoadingTier p name loadFn = \<lparr>tier_name = name, tier_priority = p, loadFunction = loadFn,
     tier_timeout = (case p of critical \<Rightarrow> 1000 | high \<Rightarrow> 1500 | medium \<Rightarrow> 2000 | low \<Rightarrow> 3000)\<rparr>"

definition video_tier :: loading_tier where
  "video_tier = createLoadingTier critical ''video-background'' VideoBackgroundLoad"

definition image_tier :: loading_tier where
  "image_tier = createLoadingTier medium ''image-preloader'' ImagePreloaderLoad"

definition navigation_tier :: loading_tier where
  "navigation_tier = createLoadingTier low ''mobile-navigation'' MobileNavigationLoad"

text \<open>The loader's own part of initProgressiveLoader: the three calls of addTier.\<close>

definition initProgressiveLoader_loader :: "bool \<Rightarrow> pl_state" where
  "initProgressiveLoader_loader has_ric =
     addTier navigation_tier (addTier image_tier (addTier video_tier
       (new_ProgressiveLoader default_pl_config has_ric)))"

text \<open>The loader is between two runs of processQueue, with its references allocated.\<close>

definition pl_idle :: "pl_state \<Rightarrow> bool" where
  "pl_idle st = (\<not> pl_isProcessing st \<and> pl_suspended st = None \<and> pl_loadingQueue st < pl_next_array st)"

text \<open>The array after the sort of processQueue, and its critical tiers.\<close>

definition sortedQueue_of :: "pl_state \<Rightarrow> loading_tier list" where
  "sortedQueue_of st = sort_key (\<lambda>t. priorityOrder (tier_priority t)) (loadingQueue st)"

definition criticalTiers_of :: "pl_state \<Rightarrow> loading_tier list" where
  "criticalTiers_of st = filter (\<lambda>t. tier_priority t = critical) (sortedQueue_of st)"

text \<open>
  The loader as addTier leaves it just before it calls processQueue: the navigation and
  image tiers are queued from earlier calls, the video tier has just been pushed.
\<close>

definition pl_example :: pl_state where
  "pl_example = (new_ProgressiveLoader default_pl_config True)
     \<lparr>pl_arrays := (\<lambda>r. if r = 0 then [navigation_tier, image_tier, video_tier] else [])\<rparr>"

section \<open>The page: initProgressiveLoader and the managers its tiers start\<close>

text \<open>
  The loader, the video background manager with the page it acts on (the session storage
  is part of it), the image preloader, and the timers of 1000 ms that the load function of
  the video tier has set and that have not fired yet. The load function keeps its manager
  in a local variable; the model has one manager, the one created last.
\<close>

record world =
  w_loader :: pl_state
  w_video :: vb_state
  w_images :: ip_state
  w_ip_document :: ip_document
  w_ready_checks :: nat
  w_console :: "log_entry list"

text \<open>The constructors: the fields of a new manager; the page's parts stay.\<close>

definition new_VideoBackgroundManager :: "vb_config_input \<Rightarrow> vb_state \<Rightarrow> vb_state" where
  "new_VideoBackgroundManager c page = page\<lparr>vb_video := None, vb_placeholder := None,
     vb_cfg := vb_make_config c, vb_isInitialized := False, vb_isVideoLoading := False,
     vb_cleanupFunctions := []\<rparr>"

definition new_ImagePreloader :: "ip_config \<Rightarrow> ip_state \<Rightarrow> ip_state" where
  "new_ImagePreloader c page = page\<lparr>ip_cfg := c, ip_observer := False, ip_observing := {},
     ip_observedElements := {}, ip_isInitialized := False, ip_preloadedImages := Map.empty\<rparr>"

text \<open>
  The load functions of initProgressiveLoader, from the moment their dynamic import has
  resolved: \<^verbatim>\<open>initVideoBackground()\<close> followed by the timer, and
  \<^verbatim>\<open>initImagePreloader(...)\<close>; the third does nothing.
\<close>

definition run_loadFunction :: "load_function \<Rightarrow> world \<Rightarrow> world" where
  "run_loadFunction f w = (case f of
       VideoBackgroundLoad \<Rightarrow>
         w\<lparr>w_video := outcome_state (vb_init (new_VideoBackgroundManager
               \<lparr>in_videoId = None, in_placeholderId = None, in_fadeDuration = None,
                in_fallbackTimeout = None, in_loadDelay = None\<rparr> (w_video w))),
           w_ready_checks := Suc (w_ready_checks w)\<rparr>
     | ImagePreloaderLoad \<Rightarrow>
         w\<lparr>w_images := outcome_state (ip_init (w_ip_document w) (new_ImagePreloader
               \<lparr>rootMargin = ''50px'', enableHoverPreload = True,
                preloadAttribute = ''data-preload-src'', triggerClass = ''preload-trigger''\<rparr>
               (w_images w)))\<rparr>
     | MobileNavigationLoad \<Rightarrow> w)"

text \<open>
  The timer callback of the video tier's load function: it asks the manager whether it is
  ready and, if so, writes the flag \<^verbatim>\<open>videoReady\<close> itself.
\<close>

definition videoReadyCheck :: "world \<Rightarrow> world" where
  "videoReadyCheck w =
     (if w_ready_checks w = 0 then w
      else (let w1 = w\<lparr>w_ready_checks := w_ready_checks w - 1\<rparr>
            in if isReady (w_video w1)
               then (if ss_in_window (vb_storage (w_video w1))
                     then (case setItem (vb_storage (w_video w1)) ''videoReady'' ''true'' of
                             Inl e \<Rightarrow> w1\<lparr>w_console := w_console w1 @ [(Warn, ''Failed to store video ready state:'')]\<rparr>
                           | Inr ss \<Rightarrow> w1\<lparr>w_video := (w_video w1)\<lparr>vb_storage := ss\<rparr>\<rparr>)
                     else w1)
               else w1))"

text \<open>The steps of the loader, on the page.\<close>

definition w_addTier :: "loading_tier \<Rightarrow> world \<Rightarrow> world" where
  "w_addTier tier w = w\<lparr>w_loader := addTier tier (w_loader w)\<rparr>"

definition w_awaited_settled :: "bool \<Rightarrow> world \<Rightarrow> world" where
  "w_awaited_settled ok w = (case pl_suspended (w_loader w) of
       None \<Rightarrow> w
     | Some (sortedQueue, tier, rest) \<Rightarrow>
         (let w1 = (if ok then run_loadFunction (loadFunction tier) w else w)
          in w1\<lparr>w_loader := awaited_settled ok (w_loader w1)\<rparr>))"

definition w_run_task :: "pl_task \<Rightarrow> world \<Rightarrow> world" where
  "w_run_task task w = w\<lparr>w_loader := pl_run_task task (w_loader w)\<rparr>"

definition w_scheduled_settled :: "loading_tier \<Rightarrow> bool \<Rightarrow> world \<Rightarrow> world" where
  "w_scheduled_settled tier ok w =
     (let w1 = (if ok then run_loadFunction (loadFunction tier) w else w)
      in w1\<lparr>w_loader := loadTier_settled tier ok (w_loader w1)\<rparr>)"

definition initProgressiveLoader :: "world \<Rightarrow> world" where
  "initProgressiveLoader w =
     w_addTier navigation_tier (w_addTier image_tier (w_addTier video_tier
       (w\<lparr>w_loader := new_ProgressiveLoader default_pl_config
                         (pl_has_requestIdleCallback (w_loader w))\<rparr>)))"

text \<open>The manager's deferred initializeVideoBackground runs, on the document \<open>doc\<close>.\<close>

definition w_video_initialize :: "vb_document \<Rightarrow> world \<Rightarrow> world" where
  "w_video_initialize doc w =
     w\<lparr>w_video := outcome_state (vb_callback_run doc InitializeVideoBackground (w_video w))\<rparr>"

text \<open>
  A page load: the loader is started, the import of the video tier resolves, and the timer
  of its load function is pending; then the manager's deferred initialisation has run.
\<close>

definition world_example :: world where
  "world_example = \<lparr>w_loader = new_ProgressiveLoader default_pl_config True,
     w_video = vb_example\<lparr>vb_video := None, vb_placeholder := None\<rparr>,
     w_images = ip_example, w_ip_document = ip_document_legacy,
     w_ready_checks = 0, w_console = []\<rparr>"

definition world_loaded :: world where
  "world_loaded = w_awaited_settled True (initProgressiveLoader world_example)"

definition world_initialized :: world where
  "world_initialized = w_video_initialize vb_document_example world_loaded"

section \<open>Outcomes\<close>

lemma returns_simps [simp]: "returns (Normal s)" "\<not> returns (Throw e s)"
  by (simp_all add: returns_def)

lemma outcome_state_simps [simp]: "outcome_state (Normal s) = s" "outcome_state (Throw e s) = s"
  by (simp_all add: outcome_state_def)

lemma try_catch_simps [simp]:
  "try_catch (Normal s) handler = Normal s" "try_catch (Throw e s) handler = handler e s"
  by (simp_all add: try_catch_def)

section \<open>Properties of the mobile navigation controller\<close>

lemma toggleMenu_blocked:
  "mn_isAnimating st \<Longrightarrow> toggleMenu st = mn_log Debug ''Toggle blocked:'' st"
  by (simp add: toggleMenu_def split: option.splits)


lemma toggleMenu_close_result:
  assumes "mn_hamburger st = Some h" "mn_menu st = Some m" "\<not> mn_isAnimating st"
    and "''is-active'' \<in> classList h"
  shows "mn_hamburger (toggleMenu st) = Some (h\<lparr>classList := classList h - {''is-active''},
            attributes := (attributes h)(''aria-expanded'' \<mapsto> ''false'')\<rparr>)"
    and "mn_menu (toggleMenu st) = Some (m\<lparr>classList := classList m - {''menu-open''},
            style := (style m)(''height'' \<mapsto> ''0'')\<rparr>)"
    and "mn_body_overflow (toggleMenu st) = ''''"
    and "mn_isAnimating (toggleMenu st)"
  using assms by (simp_all add: toggleMenu_def mn_log_def mn_setTimeout_def Let_def)

lemma toggleMenu_closes:
  assumes "mn_hamburger st = Some h" "mn_menu st = Some m" "\<not> mn_isAnimating st"
    and "''is-active'' \<in> classList h"
  shows "menu_closed (toggleMenu st)"
  using toggleMenu_close_result [OF assms] by (simp add: menu_closed_def)

lemma startNavigationClose_closes:
  assumes "mn_hamburger st = Some h" "mn_menu st = Some m"
  shows "menu_closed (startNavigationClose st)"
  using assms by (simp add: startNavigationClose_def menu_closed_def mn_setTimeout_def Let_def)

lemma handleNavLinkClick_closes:
  assumes "mn_hamburger st = Some h" "mn_menu st = Some m" "''is-active'' \<in> classList h"
  shows "menu_closed (handleNavLinkClick link st)"
proof -
  have "menu_closed (startNavigationClose st)"
    using assms(1,2) by (rule startNavigationClose_closes)
  then show ?thesis
    using assms
    by (simp add: handleNavLinkClick_def is_active_def menu_closed_def mn_setTimeout_def Let_def
        split: prod.splits option.splits)
qed

text \<open>
  Every call that raises the busy flag leaves a pending timer that lowers it: toggleMenu
  after the longer of the two durations, startNavigationClose after 200 ms, and the
  identifier of that timer is the one kept in \<^verbatim>\<open>cleanupTimeout\<close>.
\<close>

lemma toggleMenu_schedules_reset:
  assumes "mn_hamburger st = Some h" "mn_menu st = Some m" "\<not> mn_isAnimating st"
  shows "mn_isAnimating (toggleMenu st)
       \<and> mn_timers (toggleMenu st) = mn_timers st @
           [(Suc (mn_next_timer st),
             max (animationDuration (mn_cfg st)) (opacityDuration (mn_cfg st)), ResetAnimating)]
       \<and> mn_cleanupTimeout (toggleMenu st) = Some (Suc (mn_next_timer st))"
  using assms by (simp add: toggleMenu_def mn_log_def mn_setTimeout_def Let_def)

lemma startNavigationClose_schedules_reset:
  assumes "mn_hamburger st = Some h" "mn_menu st = Some m"
  shows "mn_isAnimating (startNavigationClose st)
       \<and> mn_timers (startNavigationClose st) = mn_timers st @
           [(Suc (mn_next_timer st), 200, FinishNavigationClose)]
       \<and> mn_cleanupTimeout (startNavigationClose st) = Some (Suc (mn_next_timer st))"
  using assms by (simp add: startNavigationClose_def mn_setTimeout_def Let_def)

text \<open>
  Claim C3. A hamburger click that arrives less than \<^verbatim>\<open>debounceDelay\<close> milliseconds
  after the last click that passed the debounce test, or while the busy flag is set, toggles
  nothing: the hamburger (its classes and attributes), the menu (its classes and inline
  style) and the body's overflow are those of before, the busy flag is unchanged and no timer
  is added. The delay is 300 when the configuration gives none.
\<close>

theorem handleHamburgerClick_debounced:
  assumes "now - mn_lastClickTime st < debounceDelay (mn_cfg st) \<or> mn_isAnimating st"
  shows "mn_hamburger (handleHamburgerClick now st) = mn_hamburger st
       \<and> mn_menu (handleHamburgerClick now st) = mn_menu st
       \<and> mn_body_overflow (handleHamburgerClick now st) = mn_body_overflow st
       \<and> mn_isAnimating (handleHamburgerClick now st) = mn_isAnimating st
       \<and> mn_timers (handleHamburgerClick now st) = mn_timers st
       \<and> debounceDelay (mn_make_config (c\<lparr>in_debounceDelay := None\<rparr>)) = 300"
  using assms by (auto simp: handleHamburgerClick_def mn_make_config_def js_or_def)

theorem handleHamburgerClick_debounced_witness:
  "(299 - mn_lastClickTime mn_example < debounceDelay (mn_cfg mn_example) \<or> mn_isAnimating mn_example)
   \<and> mn_hamburger (handleHamburgerClick 299 mn_example) = mn_hamburger mn_example
   \<and> mn_menu (handleHamburgerClick 299 mn_example) = mn_menu mn_example
   \<and> mn_body_overflow (handleHamburgerClick 299 mn_example) = mn_body_overflow mn_example
   \<and> mn_isAnimating (toggleMenu mn_example)
   \<and> mn_menu (handleHamburgerClick 1000 (toggleMenu mn_example)) = mn_menu (toggleMenu mn_example)"
proof -
  have h1: "299 - mn_lastClickTime mn_example < debounceDelay (mn_cfg mn_example) \<or> mn_isAnimating mn_example"
    by (simp add: mn_example_def mn_make_config_def defaultMobileNavigationConfig_def js_or_def)
  have h2: "mn_isAnimating (toggleMenu mn_example)"
    by (simp add: toggleMenu_def mn_example_def mn_log_def mn_setTimeout_def Let_def)
  then have h3: "1000 - mn_lastClickTime (toggleMenu mn_example) < debounceDelay (mn_cfg (toggleMenu mn_example))
      \<or> mn_isAnimating (toggleMenu mn_example)" by simp
  show ?thesis
    using h1 h2 handleHamburgerClick_debounced [OF h1] handleHamburgerClick_debounced [OF h3]
    by simp
qed

text \<open>
  Claim C4, as stated, fails: right after the menu has been opened the busy flag is set (it
  stays set for the longer of the two animation durations), and toggleMenu, which the
  outside-click and Escape handlers call, returns without closing while it is set.
\<close>

theorem close_blocked_while_animating_counterexample:
  "is_active (toggleMenu mn_example)
   \<and> is_active (handleEscapeKey ''Escape'' (toggleMenu mn_example))
   \<and> is_active (handleOutsideClick \<lparr>target_in_menu = False, target_in_hamburger = False\<rparr>
        (toggleMenu mn_example))"
  by (simp add: is_active_def handleEscapeKey_def handleOutsideClick_def toggleMenu_def
      mn_example_def blank_element_def mn_log_def mn_setTimeout_def Let_def)

text \<open>
  Claim C4, amended. With the menu open (the hamburger has class \<^verbatim>\<open>is-active\<close>): a
  document click whose target is in neither the menu nor the hamburger, and a keydown of
  Escape, close the menu when the busy flag is not set, and leave it open when it is set;
  the activation of a navigation link closes it in both cases. Closing removes
  \<^verbatim>\<open>is-active\<close>, sets aria-expanded to false, the menu's inline height to 0 and the
  body's overflow to the empty string.
\<close>

theorem close_events_close_menu:
  assumes "mn_hamburger st = Some h" "mn_menu st = Some m" "''is-active'' \<in> classList h"
  shows "(\<not> mn_isAnimating st \<and> \<not> target_in_menu e \<and> \<not> target_in_hamburger e
            \<longrightarrow> menu_closed (handleOutsideClick e st))
       \<and> (\<not> mn_isAnimating st \<longrightarrow> menu_closed (handleEscapeKey ''Escape'' st))
       \<and> menu_closed (handleNavLinkClick link st)
       \<and> (mn_isAnimating st \<longrightarrow> is_active (handleOutsideClick e st)
                                  \<and> is_active (handleEscapeKey ''Escape'' st))"
  using assms toggleMenu_closes [OF assms(1,2) _ assms(3)] handleNavLinkClick_closes [OF assms]
  by (auto simp: handleOutsideClick_def handleEscapeKey_def is_active_def toggleMenu_blocked
      mn_log_def)

theorem close_events_close_menu_witness:
  "is_active (mn_fire_timer 1 (toggleMenu mn_example))
   \<and> \<not> mn_isAnimating (mn_fire_timer 1 (toggleMenu mn_example))
   \<and> menu_closed (handleOutsideClick \<lparr>target_in_menu = False, target_in_hamburger = False\<rparr>
        (mn_fire_timer 1 (toggleMenu mn_example)))
   \<and> menu_closed (handleEscapeKey ''Escape'' (mn_fire_timer 1 (toggleMenu mn_example)))
   \<and> menu_closed (handleNavLinkClick \<lparr>href = Some ''/blog'', isHTMLElement = True\<rparr>
        (mn_fire_timer 1 (toggleMenu mn_example)))
   \<and> mn_isAnimating (toggleMenu mn_example)
   \<and> menu_closed (handleNavLinkClick \<lparr>href = Some ''/blog'', isHTMLElement = True\<rparr>
        (toggleMenu mn_example))"
proof -
  let ?opened = "toggleMenu mn_example"
  let ?settled = "mn_fire_timer 1 ?opened"
  let ?h = "blank_element\<lparr>classList := {''is-active''},
               attributes := [''aria-expanded'' \<mapsto> ''true'']\<rparr>"
  let ?m = "blank_element\<lparr>style := [''height'' \<mapsto> js_int_to_string 720 @ ''px''],
               classList := {''menu-open''}\<rparr>"
  have o1: "mn_hamburger ?opened = Some ?h" and o2: "mn_menu ?opened = Some ?m"
    and o3: "mn_isAnimating ?opened"
    by (simp_all add: toggleMenu_def mn_example_def blank_element_def mn_log_def
        mn_setTimeout_def Let_def)
  have s1: "mn_hamburger ?settled = Some ?h" and s2: "mn_menu ?settled = Some ?m"
    and s3: "\<not> mn_isAnimating ?settled"
    by (simp_all add: mn_fire_timer_def mn_timer_callback_def mn_clearTimeout_def toggleMenu_def
        mn_example_def blank_element_def mn_log_def mn_setTimeout_def Let_def)
  have act: "''is-active'' \<in> classList ?h" by simp
  show ?thesis
    using close_events_close_menu [OF s1 s2 act,
        of "\<lparr>target_in_menu = False, target_in_hamburger = False\<rparr>"
           "\<lparr>href = Some ''/blog'', isHTMLElement = True\<rparr>"]
      close_events_close_menu [OF o1 o2 act,
        of "\<lparr>target_in_menu = False, target_in_hamburger = False\<rparr>"
           "\<lparr>href = Some ''/blog'', isHTMLElement = True\<rparr>"]
      s1 s3 o3
    by (simp add: is_active_def)
qed

text \<open>
  The rendering of an integer is its decimal numeral: its characters are digits that read
  back as the number (after the minus sign when it is negative).
\<close>

lemma of_char_digit_char: "(of_char (digit_char d) :: nat) = 48 + d mod 10"
proof -
  define k where "k = d mod 10"
  have "k < 10" by (simp add: k_def)
  then have "k = 0 \<or> k = 1 \<or> k = 2 \<or> k = 3 \<or> k = 4 \<or> k = 5 \<or> k = 6 \<or> k = 7 \<or> k = 8 \<or> k = 9"
    by arith
  then have "(of_char (''0123456789'' ! k) :: nat) = 48 + k"
    by (elim disjE) simp_all
  then show ?thesis by (simp add: digit_char_def k_def)
qed

lemma digits_value_snoc: "digits_value (ds @ [c]) = 10 * digits_value ds + ((of_char c :: nat) - 48)"
  by (simp add: digits_value_def)

lemma nat_to_string_decimal: "digits_value (nat_to_string n) = n \<and> (\<forall>c \<in> set (nat_to_string n). is_digit c)"
proof (induction n rule: nat_to_string.induct)
  case (1 n)
  show ?case
  proof (cases "n < 10")
    case True
    then show ?thesis
      by (simp add: nat_to_string.simps [of n] digits_value_def is_digit_def of_char_digit_char)
  next
    case False
    then show ?thesis
      using 1
      by (simp add: nat_to_string.simps [of n] digits_value_snoc is_digit_def of_char_digit_char)
  qed
qed

lemma js_int_to_string_decimal:
  "0 \<le> i \<Longrightarrow> digits_value (js_int_to_string i) = nat i"
  "i < 0 \<Longrightarrow> js_int_to_string i = CHR ''-'' # nat_to_string (nat (- i))"
  by (simp_all add: js_int_to_string_def nat_to_string_decimal)



text \<open>
  Claim C6. Each call of toggleMenu or startNavigationClose that sets the busy flag does
  leave a pending timer that resets it (lemmas \<open>toggleMenu_schedules_reset\<close> and
  \<open>startNavigationClose_schedules_reset\<close>). The conclusion of the claim does not hold of
  the code: \<^verbatim>\<open>cleanup\<close>, which the public \<^verbatim>\<open>init\<close> runs first, cancels the timer
  kept in \<^verbatim>\<open>cleanupTimeout\<close> and does not lower the flag, as forceCloseMenu and
  forceOpenMenu do when they cancel it. After toggleMenu has opened the menu, a
  re-initialisation before the timer fires leaves the flag set with no timer pending; from
  then on neither a hamburger click (at any later time) nor Escape closes the menu.
\<close>

theorem init_after_toggle_leaves_isAnimating_stuck:
  "returns (mn_init mn_document_example (toggleMenu mn_example))
   \<and> mn_isAnimating (outcome_state (mn_init mn_document_example (toggleMenu mn_example)))
   \<and> mn_timers (outcome_state (mn_init mn_document_example (toggleMenu mn_example))) = []
   \<and> mn_isAnimating (handleHamburgerClick 100000
         (outcome_state (mn_init mn_document_example (toggleMenu mn_example))))
   \<and> mn_timers (handleHamburgerClick 100000
         (outcome_state (mn_init mn_document_example (toggleMenu mn_example)))) = []
   \<and> mn_isAnimating (mn_cleanup (toggleMenu mn_example))
   \<and> mn_timers (mn_cleanup (toggleMenu mn_example)) = []
   \<and> \<not> mn_isAnimating (forceOpenMenu (toggleMenu mn_example))"
  by (simp add: mn_init_def mn_init_try_def try_catch_def returns_def outcome_state_def
      mn_cleanup_def mn_clear_pending_def
      mn_clearTimeout_def toggleMenu_def mn_example_def blank_element_def
      mn_document_example_def querySelector_def querySelectorAll_def handleHamburgerClick_def
      forceOpenMenu_def mn_make_config_def defaultMobileNavigationConfig_def js_or_def
      mn_log_def mn_setTimeout_def Let_def)
section \<open>Properties of the video background manager\<close>


















lemma vb_log_video [simp]: "vb_video (vb_log l m st) = vb_video st"
  by (simp add: vb_log_def)






section \<open>Properties of the image preloader\<close>

lemma set_target_src_keeps [simp]:
  "ip_images (set_target_src t s st) = ip_images st"
  "ip_preloadedImages (set_target_src t s st) = ip_preloadedImages st"
  "ip_objects (set_target_src t s st) = ip_objects st"
  "ip_promises (set_target_src t s st) = ip_promises st"
  "ip_waiting (set_target_src t s st) = ip_waiting st"
  by (simp_all add: set_target_src_def split: option.splits)

lemma set_target_src_idem:
  "ip_imgs (set_target_src t s (set_target_src t s st)) = ip_imgs (set_target_src t s st)"
  by (simp add: set_target_src_def split: option.splits)

lemma preloadImage_cached:
  assumes "cache_wf st" "ip_preloadedImages st src = Some r"
  shows "ip_images (preloadImage src t st) = ip_images st"
    and "ip_preloadedImages (preloadImage src t st) = ip_preloadedImages st"
    and "ip_objects (preloadImage src t st) = ip_objects st"
    and "pi_loaded (ip_objects st r) \<Longrightarrow>
           ip_promises (preloadImage src t st) = ip_promises st @ [Resolved r]
         \<and> ip_waiting (preloadImage src t st) = ip_waiting st"
    and "\<not> pi_loaded (ip_objects st r) \<Longrightarrow>
           ip_promises (preloadImage src t st) = ip_promises st @ [Pending]
         \<and> ip_waiting (preloadImage src t st) = ip_waiting st @ [(r, length (ip_promises st))]
         \<and> ip_imgs (preloadImage src t st) = ip_imgs st"
  using assms by (auto simp: preloadImage_def cache_wf_def Let_def)

lemma preloadImage_fresh:
  assumes "ip_preloadedImages st src = None"
  shows "ip_images (preloadImage src t st)
           = ip_images st @ [\<lparr>im_src = src, im_promise = length (ip_promises st), im_target = t\<rparr>]"
    and "ip_preloadedImages (preloadImage src t st) = (ip_preloadedImages st)(src \<mapsto> length (ip_images st))"
    and "ip_objects (preloadImage src t st) = (ip_objects st)(length (ip_images st) :=
           \<lparr>pi_src = src, pi_element = length (ip_images st), pi_loaded = False, pi_loading = True\<rparr>)"
    and "ip_imgs (preloadImage src t st) = ip_imgs st"
  using assms by (simp_all add: preloadImage_def Let_def)

lemma cache_wf_preloadImage:
  assumes "cache_wf st"
  shows "cache_wf (preloadImage src t st)"
proof (cases "ip_preloadedImages st src")
  case None
  show ?thesis
    unfolding cache_wf_def
  proof (intro allI impI)
    fix s r assume a: "ip_preloadedImages (preloadImage src t st) s = Some r"
    show "r < length (ip_images (preloadImage src t st)) \<and> im_src (ip_images (preloadImage src t st) ! r) = s
       \<and> pi_src (ip_objects (preloadImage src t st) r) = s \<and> pi_element (ip_objects (preloadImage src t st) r) = r
       \<and> (pi_loaded (ip_objects (preloadImage src t st) r) \<or> pi_loading (ip_objects (preloadImage src t st) r))"
    proof (cases "s = src")
      case True
      then show ?thesis using a by (auto simp: preloadImage_fresh [OF None])
    next
      case False
      then have "ip_preloadedImages st s = Some r" using a by (simp add: preloadImage_fresh [OF None])
      then have "r < length (ip_images st) \<and> im_src (ip_images st ! r) = s
       \<and> pi_src (ip_objects st r) = s \<and> pi_element (ip_objects st r) = r
       \<and> (pi_loaded (ip_objects st r) \<or> pi_loading (ip_objects st r))"
        using assms by (simp add: cache_wf_def)
      then show ?thesis by (simp add: preloadImage_fresh [OF None] nth_append)
    qed
  qed
next
  case (Some r)
  show ?thesis using assms
    by (simp add: cache_wf_def preloadImage_cached(1-3) [OF assms Some])
qed

lemma image_onload_keeps:
  "ip_images (image_onload i st) = ip_images st"
  "ip_preloadedImages (image_onload i st) = ip_preloadedImages st"
  by (simp_all add: image_onload_def Let_def)

lemma image_onload_objects:
  "ip_objects (image_onload i st) = (if i < length (ip_images st)
      then (ip_objects st)(i := (ip_objects st i)\<lparr>pi_loaded := True, pi_loading := False\<rparr>) else ip_objects st)"
  by (simp add: image_onload_def Let_def)

lemma cache_wf_image_onload:
  assumes "cache_wf st"
  shows "cache_wf (image_onload i st)"
  using assms by (auto simp: cache_wf_def image_onload_keeps image_onload_objects)

lemma image_onerror_keeps:
  "ip_images (image_onerror i st) = ip_images st"
  by (simp add: image_onerror_def ip_log_def Let_def)

lemma image_onerror_cache:
  "ip_preloadedImages (image_onerror i st) = (if i < length (ip_images st)
      then (ip_preloadedImages st)(im_src (ip_images st ! i) := None) else ip_preloadedImages st)"
  by (simp add: image_onerror_def ip_log_def Let_def)

lemma image_onerror_objects:
  "ip_objects (image_onerror i st) = (if i < length (ip_images st)
      then (ip_objects st)(i := (ip_objects st i)\<lparr>pi_loading := False\<rparr>) else ip_objects st)"
  by (simp add: image_onerror_def ip_log_def Let_def)

lemma cache_wf_image_onerror:
  assumes "cache_wf st"
  shows "cache_wf (image_onerror i st)"
  unfolding cache_wf_def
proof (intro allI impI)
  fix s r assume a: "ip_preloadedImages (image_onerror i st) s = Some r"
  then have m: "ip_preloadedImages st s = Some r" and ne: "i < length (ip_images st) \<Longrightarrow> s \<noteq> im_src (ip_images st ! i)"
    by (auto simp: image_onerror_cache split: if_splits)
  from m assms have w: "r < length (ip_images st) \<and> im_src (ip_images st ! r) = s
       \<and> pi_src (ip_objects st r) = s \<and> pi_element (ip_objects st r) = r
       \<and> (pi_loaded (ip_objects st r) \<or> pi_loading (ip_objects st r))"
    by (simp add: cache_wf_def)
  then have "r \<noteq> i" using ne by auto
  then show "r < length (ip_images (image_onerror i st)) \<and> im_src (ip_images (image_onerror i st) ! r) = s
       \<and> pi_src (ip_objects (image_onerror i st) r) = s \<and> pi_element (ip_objects (image_onerror i st) r) = r
       \<and> (pi_loaded (ip_objects (image_onerror i st) r) \<or> pi_loading (ip_objects (image_onerror i st) r))"
    using w by (simp add: image_onerror_keeps image_onerror_objects)
qed

lemma cache_wf_clearCache: "cache_wf (clearCache st)"
  by (simp add: cache_wf_def clearCache_def)

lemma preloadImage_keeps_entry:
  assumes "cache_wf st" "ip_preloadedImages st src = Some r"
  shows "ip_preloadedImages (preloadImage src' t st) src = Some r"
proof (cases "ip_preloadedImages st src'")
  case None
  then have "src' \<noteq> src" using assms(2) by auto
  then show ?thesis using assms(2) by (simp add: preloadImage_fresh [OF None])
next
  case (Some r')
  show ?thesis using assms(2) by (simp add: preloadImage_cached(2) [OF assms(1) Some])
qed

lemma preloadImage_twice:
  assumes "cache_wf st"
  shows "ip_images (preloadImage src t (preloadImage src t st)) = ip_images (preloadImage src t st)"
    and "ip_preloadedImages (preloadImage src t (preloadImage src t st)) = ip_preloadedImages (preloadImage src t st)"
    and "ip_objects (preloadImage src t (preloadImage src t st)) = ip_objects (preloadImage src t st)"
    and "ip_imgs (preloadImage src t (preloadImage src t st)) = ip_imgs (preloadImage src t st)"
proof -
  let ?st1 = "preloadImage src t st"
  have wf1: "cache_wf ?st1" using assms by (rule cache_wf_preloadImage)
  obtain r where r: "ip_preloadedImages ?st1 src = Some r"
  proof (cases "ip_preloadedImages st src")
    case None
    then show ?thesis using that by (simp add: preloadImage_fresh)
  next
    case (Some r')
    then show ?thesis using that by (simp add: preloadImage_cached(2) [OF assms Some])
  qed
  show "ip_images (preloadImage src t ?st1) = ip_images ?st1"
    and "ip_preloadedImages (preloadImage src t ?st1) = ip_preloadedImages ?st1"
    and "ip_objects (preloadImage src t ?st1) = ip_objects ?st1"
    by (rule preloadImage_cached [OF wf1 r])+
  show "ip_imgs (preloadImage src t ?st1) = ip_imgs ?st1"
  proof (cases "pi_loaded (ip_objects ?st1 r)")
    case False
    then show ?thesis using preloadImage_cached(5) [OF wf1 r] by simp
  next
    case True
    have "ip_preloadedImages st src = Some r \<and> pi_loaded (ip_objects st r)"
    proof (cases "ip_preloadedImages st src")
      case None
      then show ?thesis using True r by (simp add: preloadImage_fresh)
    next
      case (Some r')
      then show ?thesis using True r by (simp add: preloadImage_cached(2,3) [OF assms Some])
    qed
    then have "?st1 = (set_target_src t src st)\<lparr>ip_promises := ip_promises st @ [Resolved (pi_element (ip_objects st r))]\<rparr>"
      by (simp add: preloadImage_def Let_def)
    moreover have "preloadImage src t ?st1 = (set_target_src t src ?st1)\<lparr>ip_promises := ip_promises ?st1 @ [Resolved (pi_element (ip_objects ?st1 r))]\<rparr>"
      using r True by (simp add: preloadImage_def Let_def)
    ultimately show ?thesis
      by (simp add: set_target_src_def split: option.splits)
  qed
qed


text \<open>
  Claim C10, as stated, fails: \<^verbatim>\<open>clearCache\<close> (and \<^verbatim>\<open>destroy\<close>, which calls
  it) removes the cache entry of an image that has loaded, with no error event; the next
  preload of the same URL then creates a second image.
\<close>

theorem clearCache_removes_entry_counterexample:
  "ip_preloadedImages (image_onload 0 (preloadImage ''/a.jpg'' None ip_example)) ''/a.jpg'' = Some 0
   \<and> pi_loaded (ip_objects (image_onload 0 (preloadImage ''/a.jpg'' None ip_example)) 0)
   \<and> ip_preloadedImages (clearCache (image_onload 0 (preloadImage ''/a.jpg'' None ip_example))) ''/a.jpg'' = None
   \<and> ip_preloadedImages (ip_destroy (image_onload 0 (preloadImage ''/a.jpg'' None ip_example))) ''/a.jpg'' = None
   \<and> length (ip_images (preloadImage ''/a.jpg'' None
         (clearCache (image_onload 0 (preloadImage ''/a.jpg'' None ip_example))))) = 2"
  by (simp add: preloadImage_def image_onload_def clearCache_def ip_destroy_def ip_example_def
      set_target_src_def settle_def waiting_on_def Let_def)

text \<open>
  Claim C10, amended. In a well-formed cache: while an entry for \<^verbatim>\<open>src\<close> exists,
  preloadImage creates no image and leaves the cache as it is; it returns a promise
  resolved with the cached image when the entry is loaded, and otherwise a pending promise
  whose \<^verbatim>\<open>load\<close>/\<^verbatim>\<open>error\<close> listeners are attached to the image in flight.
  Without an entry it creates exactly one image and caches it. Preloading the same URL for
  the same target twice leaves the images, the cache, the cached objects and the page's
  image elements as preloading it once does. An entry is removed only by the error event of
  an image created for that URL, or by \<^verbatim>\<open>clearCache\<close> (hence \<^verbatim>\<open>destroy\<close>):
  preloadImage and the load event keep it. All these operations keep the cache well formed.
\<close>

theorem preloadImage_single_fetch:
  assumes "cache_wf st"
  shows "(\<forall>r. ip_preloadedImages st src = Some r \<longrightarrow>
            ip_images (preloadImage src t st) = ip_images st
          \<and> ip_preloadedImages (preloadImage src t st) = ip_preloadedImages st
          \<and> (pi_loaded (ip_objects st r) \<longrightarrow>
                ip_promises (preloadImage src t st) = ip_promises st @ [Resolved r]
              \<and> ip_waiting (preloadImage src t st) = ip_waiting st)
          \<and> (\<not> pi_loaded (ip_objects st r) \<longrightarrow>
                ip_promises (preloadImage src t st) = ip_promises st @ [Pending]
              \<and> ip_waiting (preloadImage src t st) = ip_waiting st @ [(r, length (ip_promises st))]))
       \<and> (ip_preloadedImages st src = None \<longrightarrow>
            ip_images (preloadImage src t st) = ip_images st @
              [\<lparr>im_src = src, im_promise = length (ip_promises st), im_target = t\<rparr>]
          \<and> ip_preloadedImages (preloadImage src t st) src = Some (length (ip_images st)))
       \<and> ip_images (preloadImage src t (preloadImage src t st)) = ip_images (preloadImage src t st)
       \<and> ip_preloadedImages (preloadImage src t (preloadImage src t st))
           = ip_preloadedImages (preloadImage src t st)
       \<and> ip_objects (preloadImage src t (preloadImage src t st)) = ip_objects (preloadImage src t st)
       \<and> ip_imgs (preloadImage src t (preloadImage src t st)) = ip_imgs (preloadImage src t st)
       \<and> (\<forall>r. ip_preloadedImages st src = Some r \<longrightarrow>
            ip_preloadedImages (preloadImage src' t' st) src = Some r
          \<and> ip_preloadedImages (image_onload i st) src = Some r
          \<and> (ip_preloadedImages (image_onerror i st) src = None
               \<longleftrightarrow> i < length (ip_images st) \<and> im_src (ip_images st ! i) = src))
       \<and> ip_preloadedImages (clearCache st) src = None
       \<and> cache_wf (preloadImage src t st) \<and> cache_wf (image_onload i st)
       \<and> cache_wf (image_onerror i st) \<and> cache_wf (clearCache st)"
proof -
  have a: "\<forall>r. ip_preloadedImages st src = Some r \<longrightarrow>
            ip_images (preloadImage src t st) = ip_images st
          \<and> ip_preloadedImages (preloadImage src t st) = ip_preloadedImages st
          \<and> (pi_loaded (ip_objects st r) \<longrightarrow>
                ip_promises (preloadImage src t st) = ip_promises st @ [Resolved r]
              \<and> ip_waiting (preloadImage src t st) = ip_waiting st)
          \<and> (\<not> pi_loaded (ip_objects st r) \<longrightarrow>
                ip_promises (preloadImage src t st) = ip_promises st @ [Pending]
              \<and> ip_waiting (preloadImage src t st) = ip_waiting st @ [(r, length (ip_promises st))])"
    using preloadImage_cached [OF assms] by blast
  have b: "ip_preloadedImages st src = None \<longrightarrow>
            ip_images (preloadImage src t st) = ip_images st @
              [\<lparr>im_src = src, im_promise = length (ip_promises st), im_target = t\<rparr>]
          \<and> ip_preloadedImages (preloadImage src t st) src = Some (length (ip_images st))"
    by (simp add: preloadImage_fresh)
  have c: "\<forall>r. ip_preloadedImages st src = Some r \<longrightarrow>
            ip_preloadedImages (preloadImage src' t' st) src = Some r
          \<and> ip_preloadedImages (image_onload i st) src = Some r
          \<and> (ip_preloadedImages (image_onerror i st) src = None
               \<longleftrightarrow> i < length (ip_images st) \<and> im_src (ip_images st ! i) = src)"
    using preloadImage_keeps_entry [OF assms]
    by (auto simp: image_onload_keeps image_onerror_cache)
  have d: "ip_preloadedImages (clearCache st) src = None" by (simp add: clearCache_def)
  show ?thesis
    using a b c d preloadImage_twice [OF assms, of src t] cache_wf_preloadImage [OF assms, of src t]
      cache_wf_image_onload [OF assms, of i] cache_wf_image_onerror [OF assms, of i]
      cache_wf_clearCache [of st]
    by blast
qed

lemma cache_wf_example: "cache_wf ip_example"
  by (simp add: cache_wf_def ip_example_def)

theorem preloadImage_single_fetch_witness:
  "cache_wf ip_example
   \<and> ip_preloadedImages ip_example ''/a.jpg'' = None
   \<and> length (ip_images (preloadImage ''/a.jpg'' (Some 0) ip_example)) = 1
   \<and> cache_wf (preloadImage ''/a.jpg'' (Some 0) ip_example)
   \<and> ip_preloadedImages (preloadImage ''/a.jpg'' (Some 0) ip_example) ''/a.jpg'' = Some 0
   \<and> \<not> pi_loaded (ip_objects (preloadImage ''/a.jpg'' (Some 0) ip_example) 0)
   \<and> length (ip_images (preloadImage ''/a.jpg'' (Some 0) (preloadImage ''/a.jpg'' (Some 0) ip_example))) = 1
   \<and> ip_waiting (preloadImage ''/a.jpg'' (Some 0) (preloadImage ''/a.jpg'' (Some 0) ip_example)) = [(0, 1)]
   \<and> cache_wf (image_onload 0 (preloadImage ''/a.jpg'' (Some 0) ip_example))
   \<and> pi_loaded (ip_objects (image_onload 0 (preloadImage ''/a.jpg'' (Some 0) ip_example)) 0)
   \<and> ip_promises (preloadImage ''/a.jpg'' (Some 0) (image_onload 0 (preloadImage ''/a.jpg'' (Some 0) ip_example)))
       = [Resolved 0, Resolved 0]
   \<and> ip_preloadedImages (image_onerror 0 (preloadImage ''/a.jpg'' (Some 0) ip_example)) ''/a.jpg'' = None"
proof -
  let ?st1 = "preloadImage ''/a.jpg'' (Some 0) ip_example"
  let ?st2 = "image_onload 0 ?st1"
  note w0 = cache_wf_example
  note t0 = preloadImage_single_fetch [OF w0, of "''/a.jpg''" "Some 0" "''/a.jpg''" "Some 0" 0]
  have n: "ip_preloadedImages ip_example ''/a.jpg'' = None" "ip_images ip_example = []"
    "ip_promises ip_example = []"
    by (simp_all add: ip_example_def)
  have w1: "cache_wf ?st1" using t0 by blast
  have e1: "ip_preloadedImages ?st1 ''/a.jpg'' = Some 0" "ip_images ?st1 = [\<lparr>im_src = ''/a.jpg'', im_promise = 0, im_target = Some 0\<rparr>]"
    using t0 n by simp_all
  have l1: "\<not> pi_loaded (ip_objects ?st1 0)" "ip_promises ?st1 = [Pending]" "ip_waiting ?st1 = []"
    by (simp_all add: preloadImage_def ip_example_def Let_def)
  note t1 = preloadImage_single_fetch [OF w1, of "''/a.jpg''" "Some 0" "''/a.jpg''" "Some 0" 0]
  have w2: "cache_wf ?st2" using t1 by blast
  have e2: "ip_preloadedImages ?st2 ''/a.jpg'' = Some 0" using t1 e1 by blast
  have l2: "pi_loaded (ip_objects ?st2 0)" "ip_promises ?st2 = [Resolved 0]"
    by (simp_all add: image_onload_def e1 l1 set_target_src_def settle_def waiting_on_def Let_def)
  note t2 = preloadImage_single_fetch [OF w2, of "''/a.jpg''" "Some 0" "''/a.jpg''" "Some 0" 0]
  have p2: "ip_promises (preloadImage ''/a.jpg'' (Some 0) ?st2) = [Resolved 0, Resolved 0]"
    using t2 e2 l2 by simp
  have x1: "ip_images (preloadImage ''/a.jpg'' (Some 0) ?st1) = ip_images ?st1"
    "ip_waiting (preloadImage ''/a.jpg'' (Some 0) ?st1) = [(0, 1)]"
    using t1 e1 l1 by simp_all
  have y1: "ip_preloadedImages (image_onerror 0 ?st1) ''/a.jpg'' = None"
    using t1 e1 by simp
  show ?thesis
    using w0 n w1 e1 l1 x1 w2 l2 p2 y1 by simp
qed
section \<open>Properties of the progressive loader\<close>

lemma pl_emit_simps [simp]:
  "pl_trace (pl_emit e st) = pl_trace st @ [e]"
  "pl_cfg (pl_emit e st) = pl_cfg st"
  "pl_has_requestIdleCallback (pl_emit e st) = pl_has_requestIdleCallback st"
  "pl_arrays (pl_emit e st) = pl_arrays st"
  "pl_loadingQueue (pl_emit e st) = pl_loadingQueue st"
  "pl_next_array (pl_emit e st) = pl_next_array st"
  "pl_isProcessing (pl_emit e st) = pl_isProcessing st"
  "pl_suspended (pl_emit e st) = pl_suspended st"
  "pl_loadedTiers (pl_emit e st) = pl_loadedTiers st"
  by (simp_all add: pl_emit_def)

lemma schedule_tier_eq:
  "schedule_tier t st = pl_emit (schedule_event (pl_cfg st) (pl_has_requestIdleCallback st) t) st"
  by (simp add: schedule_tier_def schedule_event_def loadTierWhenIdle_def)

lemma fold_schedule_tier:
  "pl_trace (fold schedule_tier ts st)
     = pl_trace st @ map (schedule_event (pl_cfg st) (pl_has_requestIdleCallback st)) ts
   \<and> pl_cfg (fold schedule_tier ts st) = pl_cfg st
   \<and> pl_has_requestIdleCallback (fold schedule_tier ts st) = pl_has_requestIdleCallback st
   \<and> pl_arrays (fold schedule_tier ts st) = pl_arrays st
   \<and> pl_suspended (fold schedule_tier ts st) = pl_suspended st
   \<and> pl_loadingQueue (fold schedule_tier ts st) = pl_loadingQueue st
   \<and> pl_next_array (fold schedule_tier ts st) = pl_next_array st
   \<and> pl_loadedTiers (fold schedule_tier ts st) = pl_loadedTiers st"
  by (induction ts arbitrary: st) (simp_all add: schedule_tier_eq)

lemma schedule_remaining_props:
  "pl_trace (schedule_remaining r st) = pl_trace st
       @ map (schedule_event (pl_cfg st) (pl_has_requestIdleCallback st))
           (filter (\<lambda>t. tier_priority t \<noteq> critical) (pl_arrays st r))"
  "pl_cfg (schedule_remaining r st) = pl_cfg st"
  "pl_has_requestIdleCallback (schedule_remaining r st) = pl_has_requestIdleCallback st"
  "pl_arrays (schedule_remaining r st) = pl_arrays st"
  "pl_suspended (schedule_remaining r st) = pl_suspended st"
  "\<not> pl_isProcessing (schedule_remaining r st)"
  by (simp_all add: schedule_remaining_def fold_schedule_tier)

text \<open>While a run of processQueue is under way, addTier only pushes.\<close>

lemma addTier_while_processing:
  assumes "pl_isProcessing st"
  shows "pl_trace (addTier t st) = pl_trace st" "pl_cfg (addTier t st) = pl_cfg st"
    "pl_has_requestIdleCallback (addTier t st) = pl_has_requestIdleCallback st"
    "pl_suspended (addTier t st) = pl_suspended st" "pl_isProcessing (addTier t st)"
    "pl_next_array (addTier t st) = pl_next_array st"
    "pl_loadingQueue (addTier t st) = pl_loadingQueue st"
    "\<exists>xs. pl_arrays (addTier t st) r = pl_arrays st r @ xs"
  using assms by (auto simp: addTier_def processQueue_def loadingQueue_def)

lemma fold_addTier_while_processing:
  assumes "pl_isProcessing st"
  shows "pl_trace (fold addTier ts st) = pl_trace st \<and> pl_cfg (fold addTier ts st) = pl_cfg st
    \<and> pl_has_requestIdleCallback (fold addTier ts st) = pl_has_requestIdleCallback st
    \<and> pl_suspended (fold addTier ts st) = pl_suspended st \<and> pl_isProcessing (fold addTier ts st)
    \<and> pl_next_array (fold addTier ts st) = pl_next_array st
    \<and> pl_loadingQueue (fold addTier ts st) = pl_loadingQueue st
    \<and> (\<exists>xs. pl_arrays (fold addTier ts st) r = pl_arrays st r @ xs)"
  using assms
proof (induction ts arbitrary: st)
  case Nil
  then show ?case by simp
next
  case (Cons t ts)
  note a = addTier_while_processing [OF Cons.prems]
  from a(8) [of t r] obtain xs where xs: "pl_arrays (addTier t st) r = pl_arrays st r @ xs" by blast
  from Cons.IH [OF a(5), of t] obtain ys where
    "pl_trace (fold addTier ts (addTier t st)) = pl_trace (addTier t st)"
    "pl_cfg (fold addTier ts (addTier t st)) = pl_cfg (addTier t st)"
    "pl_has_requestIdleCallback (fold addTier ts (addTier t st)) = pl_has_requestIdleCallback (addTier t st)"
    "pl_suspended (fold addTier ts (addTier t st)) = pl_suspended (addTier t st)"
    "pl_isProcessing (fold addTier ts (addTier t st))"
    "pl_next_array (fold addTier ts (addTier t st)) = pl_next_array (addTier t st)"
    "pl_loadingQueue (fold addTier ts (addTier t st)) = pl_loadingQueue (addTier t st)"
    "pl_arrays (fold addTier ts (addTier t st)) r = pl_arrays (addTier t st) r @ ys"
    by blast
  then show ?case using a(1-7) [of t] xs by simp
qed

lemma fold_addTier_nil [simp]: "fold addTier [] st = st" by simp

lemma loadTier_settled_props:
  "pl_trace (loadTier_settled t ok st) = pl_trace st"
  "pl_cfg (loadTier_settled t ok st) = pl_cfg st"
  "pl_has_requestIdleCallback (loadTier_settled t ok st) = pl_has_requestIdleCallback st"
  "pl_isProcessing (loadTier_settled t ok st) = pl_isProcessing st"
  "pl_suspended (loadTier_settled t ok st) = pl_suspended st"
  "r < pl_next_array st \<Longrightarrow> pl_arrays (loadTier_settled t ok st) r = pl_arrays st r"
  "pl_next_array st \<le> pl_next_array (loadTier_settled t ok st)"
  by (simp_all add: loadTier_settled_def)


text \<open>One await: tiers are added meanwhile, then the awaited load settles.\<close>

lemma awaited_step:
  assumes "pl_suspended st = Some (r, t, ts)" "pl_isProcessing st" "r < pl_next_array st"
  shows "pl_cfg (awaited_settled ok (fold addTier added st)) = pl_cfg st" "pl_has_requestIdleCallback (awaited_settled ok (fold addTier added st)) = pl_has_requestIdleCallback st"
    "r < pl_next_array (awaited_settled ok (fold addTier added st))" "\<exists>xs. pl_arrays (awaited_settled ok (fold addTier added st)) r = pl_arrays st r @ xs"
    "added = [] \<Longrightarrow> pl_arrays (awaited_settled ok (fold addTier added st)) r = pl_arrays st r"
    "ts = [] \<Longrightarrow> pl_trace (awaited_settled ok (fold addTier added st)) = pl_trace st
          @ map (schedule_event (pl_cfg st) (pl_has_requestIdleCallback st))
              (filter (\<lambda>t. tier_priority t \<noteq> critical) (pl_arrays (awaited_settled ok (fold addTier added st)) r))
        \<and> \<not> pl_isProcessing (awaited_settled ok (fold addTier added st))"
    "\<And>t' ts'. ts = t' # ts' \<Longrightarrow> pl_trace (awaited_settled ok (fold addTier added st)) = pl_trace st @ [Called t']
        \<and> pl_isProcessing (awaited_settled ok (fold addTier added st)) \<and> pl_suspended (awaited_settled ok (fold addTier added st)) = Some (r, t', ts')"
proof -
  let ?st2 = "awaited_settled ok (fold addTier added st)"
  let ?st1 = "fold addTier added st"
  let ?st1' = "loadTier_settled t ok (?st1\<lparr>pl_suspended := None\<rparr>)"
  note f = fold_addTier_while_processing [OF assms(2), of added r]
  from f obtain xs where xs: "pl_arrays ?st1 r = pl_arrays st r @ xs" by blast
  have s2: "?st2 = await_criticals r ts ?st1'"
    using f assms(1) by (simp add: awaited_settled_def)
  have n1: "r < pl_next_array (?st1\<lparr>pl_suspended := None\<rparr>)" using f assms(3) by simp
  have a1: "pl_arrays ?st1' r = pl_arrays st r @ xs"
    using loadTier_settled_props(6) [OF n1, of t ok] xs by simp
  have t1: "pl_trace ?st1' = pl_trace st" "pl_cfg ?st1' = pl_cfg st"
    "pl_has_requestIdleCallback ?st1' = pl_has_requestIdleCallback st" "pl_isProcessing ?st1'"
    using f by (simp_all add: loadTier_settled_props)
  have n2: "r < pl_next_array ?st1'"
    using loadTier_settled_props(7) [of "?st1\<lparr>pl_suspended := None\<rparr>" t ok] n1 by linarith
  have arr: "pl_arrays ?st2 r = pl_arrays ?st1' r"
    by (simp add: s2 await_criticals_def schedule_remaining_props loadTier_call_def split: list.splits)
  show "pl_cfg ?st2 = pl_cfg st" "pl_has_requestIdleCallback ?st2 = pl_has_requestIdleCallback st"
    using t1 by (simp_all add: s2 await_criticals_def schedule_remaining_props loadTier_call_def split: list.splits)
  show "r < pl_next_array ?st2"
    using n2 by (simp add: s2 await_criticals_def schedule_remaining_def fold_schedule_tier loadTier_call_def split: list.splits)
  show "\<exists>xs. pl_arrays ?st2 r = pl_arrays st r @ xs" using arr a1 by simp
  show "added = [] \<Longrightarrow> pl_arrays ?st2 r = pl_arrays st r"
    using arr loadTier_settled_props(6) [of r "st\<lparr>pl_suspended := None\<rparr>" t ok] assms(3) by simp
  show "ts = [] \<Longrightarrow> pl_trace ?st2 = pl_trace st
          @ map (schedule_event (pl_cfg st) (pl_has_requestIdleCallback st))
              (filter (\<lambda>t. tier_priority t \<noteq> critical) (pl_arrays ?st2 r))
        \<and> \<not> pl_isProcessing ?st2"
    using t1 arr by (simp add: s2 await_criticals_def schedule_remaining_props)
  show "\<And>t' ts'. ts = t' # ts' \<Longrightarrow> pl_trace ?st2 = pl_trace st @ [Called t']
        \<and> pl_isProcessing ?st2 \<and> pl_suspended ?st2 = Some (r, t', ts')"
    using t1 by (simp add: s2 await_criticals_def loadTier_call_def)
qed

lemma run_awaits_complete:
  assumes "pl_suspended st = Some (r, t, ts)" "pl_isProcessing st" "r < pl_next_array st"
    and "length ivs = Suc (length ts)"
  shows "pl_trace (run_awaits ivs st) = pl_trace st @ map Called ts
           @ map (schedule_event (pl_cfg st) (pl_has_requestIdleCallback st))
               (filter (\<lambda>t. tier_priority t \<noteq> critical) (pl_arrays (run_awaits ivs st) r))
       \<and> \<not> pl_isProcessing (run_awaits ivs st)
       \<and> (\<exists>xs. pl_arrays (run_awaits ivs st) r = pl_arrays st r @ xs)
       \<and> ((\<forall>iv \<in> set ivs. fst iv = []) \<longrightarrow> pl_arrays (run_awaits ivs st) r = pl_arrays st r)"
  using assms
proof (induction ts arbitrary: st t ivs)
  case Nil
  then obtain added ok where ivs: "ivs = [(added, ok)]"
    by (cases ivs) (auto simp: length_Suc_conv)
  note s = awaited_step [OF Nil.prems(1-3), where ok = ok and added = added]
  show ?case using s(4,5,6) by (simp add: ivs)
next
  case (Cons t' ts')
  then obtain added ok rest where ivs: "ivs = (added, ok) # rest" and len: "length rest = Suc (length ts')"
    by (cases ivs) auto
  let ?st2 = "awaited_settled ok (fold addTier added st)"
  note s = awaited_step [OF Cons.prems(1-3), where ok = ok and added = added]
  have s7: "pl_trace ?st2 = pl_trace st @ [Called t']" "pl_isProcessing ?st2"
    "pl_suspended ?st2 = Some (r, t', ts')"
    using s(7) [of t' ts'] by simp_all
  note ih = Cons.IH [OF s7(3) s7(2) s(3) len]
  from s(4) obtain xs where xs: "pl_arrays ?st2 r = pl_arrays st r @ xs" by blast
  from ih obtain ys where ys: "pl_arrays (run_awaits rest ?st2) r = pl_arrays ?st2 r @ ys" by blast
  have e: "\<exists>zs. pl_arrays (run_awaits ivs st) r = pl_arrays st r @ zs"
    using xs ys by (simp add: ivs)
  have n: "(\<forall>iv \<in> set ivs. fst iv = []) \<longrightarrow> pl_arrays (run_awaits ivs st) r = pl_arrays st r"
  proof
    assume a: "\<forall>iv \<in> set ivs. fst iv = []"
    then have a1: "added = []" and a2: "\<forall>iv \<in> set rest. fst iv = []" by (simp_all add: ivs)
    have "pl_arrays (run_awaits rest ?st2) r = pl_arrays ?st2 r" using ih a2 by blast
    also have "\<dots> = pl_arrays st r" using s(5) [OF a1] .
    finally show "pl_arrays (run_awaits ivs st) r = pl_arrays st r" by (simp add: ivs)
  qed
  show ?case using ih s7(1) s(1,2) e n by (simp add: ivs)
qed

lemma run_awaits_partial:
  assumes "pl_suspended st = Some (r, t, ts)" "pl_isProcessing st" "r < pl_next_array st"
    and "length ivs \<le> length ts"
  shows "pl_trace (run_awaits ivs st) = pl_trace st @ map Called (take (length ivs) ts)
       \<and> pl_isProcessing (run_awaits ivs st)"
  using assms
proof (induction ivs arbitrary: st t ts)
  case Nil
  then show ?case by simp
next
  case (Cons iv rest)
  obtain added ok where iv: "iv = (added, ok)" by (cases iv)
  from Cons.prems(4) obtain t' ts' where ts: "ts = t' # ts'" by (cases ts) auto
  let ?st2 = "awaited_settled ok (fold addTier added st)"
  note s = awaited_step [OF Cons.prems(1-3), where ok = ok and added = added]
  have s7: "pl_trace ?st2 = pl_trace st @ [Called t']" "pl_isProcessing ?st2"
    "pl_suspended ?st2 = Some (r, t', ts')"
    using s(7) [OF ts] by simp_all
  have len: "length rest \<le> length ts'" using Cons.prems(4) ts by simp
  show ?case using Cons.IH [OF s7(3) s7(2) s(3) len] s7(1) by (simp add: iv ts)
qed

text \<open>The start of processQueue on an idle loader with a non-empty queue.\<close>

lemma processQueue_unfold:
  assumes "pl_idle st" "loadingQueue st \<noteq> []"
  shows "processQueue st = await_criticals (pl_loadingQueue st) (criticalTiers_of st)
           (st\<lparr>pl_isProcessing := True,
               pl_arrays := (pl_arrays st)(pl_loadingQueue st := sortedQueue_of st)\<rparr>)"
  using assms
  by (simp add: processQueue_def pl_idle_def Let_def sortedQueue_of_def criticalTiers_of_def)

lemma processQueue_start:
  assumes "pl_idle st" "loadingQueue st \<noteq> []"
  shows "pl_arrays (processQueue st) (pl_loadingQueue st) = sortedQueue_of st"
    and "pl_cfg (processQueue st) = pl_cfg st"
    and "pl_has_requestIdleCallback (processQueue st) = pl_has_requestIdleCallback st"
    and "pl_next_array (processQueue st) = pl_next_array st"
    and "criticalTiers_of st = [] \<Longrightarrow>
           pl_trace (processQueue st) = pl_trace st
             @ map (schedule_event (pl_cfg st) (pl_has_requestIdleCallback st))
                 (filter (\<lambda>t. tier_priority t \<noteq> critical) (sortedQueue_of st))
         \<and> \<not> pl_isProcessing (processQueue st)"
    and "\<And>c cs. criticalTiers_of st = c # cs \<Longrightarrow>
           pl_trace (processQueue st) = pl_trace st @ [Called c]
         \<and> pl_isProcessing (processQueue st)
         \<and> pl_suspended (processQueue st) = Some (pl_loadingQueue st, c, cs)"
  unfolding processQueue_unfold [OF assms]
  by (simp_all add: await_criticals_def schedule_remaining_props schedule_remaining_def
      fold_schedule_tier loadTier_call_def split: list.splits)


lemma priorityOrder_inj: "priorityOrder p = priorityOrder q \<longleftrightarrow> p = q"
  by (cases p; cases q) simp_all

lemma sortedQueue_sorted:
  "sorted (map (\<lambda>t. priorityOrder (tier_priority t)) (sortedQueue_of st))"
  by (simp add: sortedQueue_of_def)

lemma sortedQueue_stable:
  "filter (\<lambda>t. tier_priority t = p) (sortedQueue_of st) = filter (\<lambda>t. tier_priority t = p) (loadingQueue st)"
  using sort_key_stable [of "\<lambda>t. priorityOrder (tier_priority t)" "priorityOrder p" "loadingQueue st"]
  by (simp add: sortedQueue_of_def priorityOrder_inj)

lemma loadTier_settled_result:
  "tier_name t \<in> pl_loadedTiers (loadTier_settled t True s)"
  "\<forall>u \<in> set (loadingQueue (loadTier_settled t True s)). tier_name u \<noteq> tier_name t"
  "pl_loadedTiers (loadTier_settled t False s) = pl_loadedTiers s"
  "loadingQueue (loadTier_settled t False s) = loadingQueue s"
  by (simp_all add: loadTier_settled_def loadingQueue_def)

lemma processQueue_run:
  assumes "pl_idle st" "loadingQueue st \<noteq> []" "length ivs = length (criticalTiers_of st)"
  shows "pl_trace (run_awaits ivs (processQueue st)) = pl_trace st @ map Called (criticalTiers_of st)
           @ map (schedule_event (pl_cfg st) (pl_has_requestIdleCallback st))
               (filter (\<lambda>t. tier_priority t \<noteq> critical)
                  (pl_arrays (run_awaits ivs (processQueue st)) (pl_loadingQueue st)))"
    and "\<exists>pushed. pl_arrays (run_awaits ivs (processQueue st)) (pl_loadingQueue st) = sortedQueue_of st @ pushed"
    and "(\<forall>iv \<in> set ivs. fst iv = []) \<longrightarrow>
           pl_arrays (run_awaits ivs (processQueue st)) (pl_loadingQueue st) = sortedQueue_of st"
    and "\<not> pl_isProcessing (run_awaits ivs (processQueue st))"
    and "\<forall>n < length ivs.
           pl_trace (run_awaits (take n ivs) (processQueue st))
             = pl_trace st @ map Called (take (Suc n) (criticalTiers_of st))
         \<and> pl_isProcessing (run_awaits (take n ivs) (processQueue st))"
proof -
  note ps = processQueue_start [OF assms(1,2)]
  let ?r = "pl_loadingQueue st"
  let ?P = "processQueue st"
  have all: "pl_trace (run_awaits ivs ?P) = pl_trace st @ map Called (criticalTiers_of st)
           @ map (schedule_event (pl_cfg st) (pl_has_requestIdleCallback st))
               (filter (\<lambda>t. tier_priority t \<noteq> critical) (pl_arrays (run_awaits ivs ?P) ?r))
       \<and> (\<exists>pushed. pl_arrays (run_awaits ivs ?P) ?r = sortedQueue_of st @ pushed)
       \<and> ((\<forall>iv \<in> set ivs. fst iv = []) \<longrightarrow> pl_arrays (run_awaits ivs ?P) ?r = sortedQueue_of st)
       \<and> \<not> pl_isProcessing (run_awaits ivs ?P)
       \<and> (\<forall>n < length ivs.
           pl_trace (run_awaits (take n ivs) ?P) = pl_trace st @ map Called (take (Suc n) (criticalTiers_of st))
         \<and> pl_isProcessing (run_awaits (take n ivs) ?P))"
  proof (cases "criticalTiers_of st")
    case Nil
    then have "ivs = []" using assms(3) by simp
    then show ?thesis using ps(1) ps(5) [OF Nil] Nil by simp
  next
    case (Cons c cs)
    note p6 = ps(6) [OF Cons]
    have susp: "pl_suspended ?P = Some (?r, c, cs)" and proc: "pl_isProcessing ?P"
      and tr: "pl_trace ?P = pl_trace st @ [Called c]"
      using p6 by simp_all
    have lt: "?r < pl_next_array ?P" using assms(1) ps(4) by (simp add: pl_idle_def)
    have len: "length ivs = Suc (length cs)" using assms(3) Cons by simp
    note rc = run_awaits_complete [OF susp proc lt len]
    have part: "\<forall>n < length ivs.
           pl_trace (run_awaits (take n ivs) ?P) = pl_trace st @ map Called (take (Suc n) (criticalTiers_of st))
         \<and> pl_isProcessing (run_awaits (take n ivs) ?P)"
    proof (intro allI impI)
      fix n assume n: "n < length ivs"
      then have l: "length (take n ivs) \<le> length cs" using len by simp
      have ln: "length (take n ivs) = n" using n by simp
      show "pl_trace (run_awaits (take n ivs) ?P) = pl_trace st @ map Called (take (Suc n) (criticalTiers_of st))
         \<and> pl_isProcessing (run_awaits (take n ivs) ?P)"
        using run_awaits_partial [OF susp proc lt l] tr n by (simp add: Cons min_def)
    qed
    show ?thesis using rc part tr ps(1,2,3) by (simp add: Cons)
  qed
  show "pl_trace (run_awaits ivs (processQueue st)) = pl_trace st @ map Called (criticalTiers_of st)
           @ map (schedule_event (pl_cfg st) (pl_has_requestIdleCallback st))
               (filter (\<lambda>t. tier_priority t \<noteq> critical)
                  (pl_arrays (run_awaits ivs (processQueue st)) (pl_loadingQueue st)))"
    and "\<exists>pushed. pl_arrays (run_awaits ivs (processQueue st)) (pl_loadingQueue st) = sortedQueue_of st @ pushed"
    and "(\<forall>iv \<in> set ivs. fst iv = []) \<longrightarrow>
           pl_arrays (run_awaits ivs (processQueue st)) (pl_loadingQueue st) = sortedQueue_of st"
    and "\<not> pl_isProcessing (run_awaits ivs (processQueue st))"
    and "\<forall>n < length ivs.
           pl_trace (run_awaits (take n ivs) (processQueue st))
             = pl_trace st @ map Called (take (Suc n) (criticalTiers_of st))
         \<and> pl_isProcessing (run_awaits (take n ivs) (processQueue st))"
    using all by blast+
qed

text \<open>
  Claim C8, amended. On a loader that is not processing and whose queue is not empty,
  processQueue sorts the queue in place, stably, by priority (critical, high, medium, low);
  it loads the critical tiers one after the other, in that order, awaiting each, and emits
  nothing else until the last of them has settled, whatever tiers addTier pushes meanwhile
  (\<open>ivs\<close> gives, for each await, the tiers added during it and whether the load was
  fulfilled). Then it schedules every non-critical tier of the sorted array (those pushed
  onto it during the awaits included): a high tier by a timeout of 100 ms; a medium tier by
  an idle callback with the tier's timeout when idle callbacks are enabled and the window
  has \<^verbatim>\<open>requestIdleCallback\<close>, and by a timeout of \<^verbatim>\<open>fallbackDelay\<close> otherwise; a
  low tier by a timeout of 2000 ms after which the same idle-or-fallback step follows. A
  tier whose load function is fulfilled is added to \<^verbatim>\<open>loadedTiers\<close> and no tier of
  its name stays in the queue; a rejected load changes neither; addTier ignores a tier
  whose name is in \<^verbatim>\<open>loadedTiers\<close>.
\<close>

theorem processQueue_schedule:
  assumes "pl_idle st" "loadingQueue st \<noteq> []" "length ivs = length (criticalTiers_of st)"
  shows "sorted (map (\<lambda>t. priorityOrder (tier_priority t)) (sortedQueue_of st))
     \<and> (\<forall>p. filter (\<lambda>t. tier_priority t = p) (sortedQueue_of st)
              = filter (\<lambda>t. tier_priority t = p) (loadingQueue st))
     \<and> pl_arrays (processQueue st) (pl_loadingQueue st) = sortedQueue_of st
     \<and> (\<forall>n < length ivs.
           pl_trace (run_awaits (take n ivs) (processQueue st))
             = pl_trace st @ map Called (take (Suc n) (criticalTiers_of st))
         \<and> pl_isProcessing (run_awaits (take n ivs) (processQueue st)))
     \<and> pl_trace (run_awaits ivs (processQueue st)) = pl_trace st @ map Called (criticalTiers_of st)
           @ map (schedule_event (pl_cfg st) (pl_has_requestIdleCallback st))
               (filter (\<lambda>t. tier_priority t \<noteq> critical)
                  (pl_arrays (run_awaits ivs (processQueue st)) (pl_loadingQueue st)))
     \<and> (\<exists>pushed. pl_arrays (run_awaits ivs (processQueue st)) (pl_loadingQueue st)
                     = sortedQueue_of st @ pushed)
     \<and> ((\<forall>iv \<in> set ivs. fst iv = []) \<longrightarrow>
           pl_arrays (run_awaits ivs (processQueue st)) (pl_loadingQueue st) = sortedQueue_of st)
     \<and> \<not> pl_isProcessing (run_awaits ivs (processQueue st))
     \<and> pl_trace (pl_run_task (LoadTierWhenIdle t) s) = pl_trace s @
           [if enableIdleCallback (pl_cfg s) \<and> pl_has_requestIdleCallback s
            then RequestIdleCallback (LoadTier t) (tier_timeout t)
            else SetTimeout (LoadTier t) (fallbackDelay (pl_cfg s))]
     \<and> tier_name t \<in> pl_loadedTiers (loadTier_settled t True s)
     \<and> (\<forall>u \<in> set (loadingQueue (loadTier_settled t True s)). tier_name u \<noteq> tier_name t)
     \<and> pl_loadedTiers (loadTier_settled t False s) = pl_loadedTiers s
     \<and> loadingQueue (loadTier_settled t False s) = loadingQueue s
     \<and> (tier_name t \<in> pl_loadedTiers s \<longrightarrow> addTier t s = s)"
proof -
  have w: "pl_trace (pl_run_task (LoadTierWhenIdle t) s) = pl_trace s @
           [if enableIdleCallback (pl_cfg s) \<and> pl_has_requestIdleCallback s
            then RequestIdleCallback (LoadTier t) (tier_timeout t)
            else SetTimeout (LoadTier t) (fallbackDelay (pl_cfg s))]"
    by (simp add: pl_run_task_def loadTierWhenIdle_def)
  have a: "tier_name t \<in> pl_loadedTiers s \<longrightarrow> addTier t s = s" by (simp add: addTier_def)
  show ?thesis
    using sortedQueue_sorted [of st] sortedQueue_stable [of _ st] processQueue_start(1) [OF assms(1,2)]
      processQueue_run [OF assms] loadTier_settled_result [of t s] w a
    by blast
qed

lemmas pl_example_defs = pl_example_def new_ProgressiveLoader_def default_pl_config_def video_tier_def
  image_tier_def navigation_tier_def createLoadingTier_def

lemma sortedQueue_example: "sortedQueue_of pl_example = [video_tier, image_tier, navigation_tier]"
  by (simp add: sortedQueue_of_def loadingQueue_def pl_example_defs)

lemma criticalTiers_example: "criticalTiers_of pl_example = [video_tier]"
  by (simp add: criticalTiers_of_def sortedQueue_example) (simp add: pl_example_defs)

text \<open>
  Claim C8, as stated, fails in a window without \<^verbatim>\<open>requestIdleCallback\<close>:
  loadTierWhenIdle tests for it and falls back to a timeout, so a medium tier is scheduled
  by \<^verbatim>\<open>setTimeout\<close> after \<^verbatim>\<open>fallbackDelay\<close>, and so is a low tier once its
  2000 ms have passed; no idle callback is requested.
\<close>

theorem medium_tier_without_idle_callback_counterexample:
  "pl_trace (addTier image_tier (new_ProgressiveLoader default_pl_config False))
     = [SetTimeout (LoadTier image_tier) 1000]
   \<and> pl_trace (pl_run_task (LoadTierWhenIdle navigation_tier)
         (addTier navigation_tier (new_ProgressiveLoader default_pl_config False)))
     = [SetTimeout (LoadTierWhenIdle navigation_tier) 2000, SetTimeout (LoadTier navigation_tier) 1000]"
  by (simp add: addTier_def processQueue_def loadingQueue_def await_criticals_def schedule_remaining_def
      schedule_tier_def loadTierWhenIdle_def pl_emit_def pl_run_task_def pl_example_defs Let_def)

theorem processQueue_schedule_witness:
  "pl_idle pl_example \<and> loadingQueue pl_example \<noteq> []
   \<and> length [([], True)] = length (criticalTiers_of pl_example)
   \<and> sortedQueue_of pl_example = [video_tier, image_tier, navigation_tier]
   \<and> pl_trace (run_awaits (take 0 [([], True)]) (processQueue pl_example)) = [Called video_tier]
   \<and> pl_trace (run_awaits [([], True)] (processQueue pl_example))
       = [Called video_tier, RequestIdleCallback (LoadTier image_tier) 2000,
          SetTimeout (LoadTierWhenIdle navigation_tier) 2000]
   \<and> tier_name video_tier \<in> pl_loadedTiers (loadTier_settled video_tier True pl_example)
   \<and> addTier video_tier (loadTier_settled video_tier True pl_example)
       = loadTier_settled video_tier True pl_example"
proof -
  have i: "pl_idle pl_example" by (simp add: pl_idle_def pl_example_defs)
  have q: "loadingQueue pl_example \<noteq> []" by (simp add: loadingQueue_def pl_example_defs)
  have l: "length [([], True)] = length (criticalTiers_of pl_example)"
    by (simp add: criticalTiers_example)
  have e: "pl_trace pl_example = []" "pl_cfg pl_example = default_pl_config"
    "pl_has_requestIdleCallback pl_example" "enableIdleCallback default_pl_config"
    by (simp_all add: pl_example_defs)
  have n: "\<forall>iv \<in> set [([]::loading_tier list, True)]. fst iv = []" by simp
  have se: "map (schedule_event default_pl_config True) [image_tier, navigation_tier]
       = [RequestIdleCallback (LoadTier image_tier) 2000, SetTimeout (LoadTierWhenIdle navigation_tier) 2000]"
    by (simp add: schedule_event_def pl_example_defs)
  have f: "filter (\<lambda>t. tier_priority t \<noteq> critical) [video_tier, image_tier, navigation_tier]
       = [image_tier, navigation_tier]"
    by (simp add: pl_example_defs)
  note t = processQueue_schedule [OF i q l, of video_tier "loadTier_settled video_tier True pl_example"]
  note t0 = processQueue_schedule [OF i q l, of video_tier pl_example]
  have a: "pl_arrays (run_awaits [([], True)] (processQueue pl_example)) (pl_loadingQueue pl_example)
      = [video_tier, image_tier, navigation_tier]"
    using t n by (simp add: sortedQueue_example)
  have tr: "pl_trace (run_awaits [([], True)] (processQueue pl_example))
       = [Called video_tier, RequestIdleCallback (LoadTier image_tier) 2000,
          SetTimeout (LoadTierWhenIdle navigation_tier) 2000]"
  proof -
    have "pl_trace (run_awaits [([], True)] (processQueue pl_example))
        = pl_trace pl_example @ map Called (criticalTiers_of pl_example)
           @ map (schedule_event (pl_cfg pl_example) (pl_has_requestIdleCallback pl_example))
               (filter (\<lambda>t. tier_priority t \<noteq> critical)
                  (pl_arrays (run_awaits [([], True)] (processQueue pl_example)) (pl_loadingQueue pl_example)))"
      using t by blast
    also have "\<dots> = [] @ map Called [video_tier]
           @ map (schedule_event default_pl_config True) [image_tier, navigation_tier]"
      by (simp only: a e f criticalTiers_example)
    finally show ?thesis by (simp only: se) simp
  qed
  have p: "pl_trace (run_awaits (take 0 [([], True)]) (processQueue pl_example)) = [Called video_tier]"
    using t by (simp add: e criticalTiers_example)
  have m: "tier_name video_tier \<in> pl_loadedTiers (loadTier_settled video_tier True pl_example)"
    using t0 by blast
  have ad: "addTier video_tier (loadTier_settled video_tier True pl_example)
       = loadTier_settled video_tier True pl_example"
    using t m by blast
  show ?thesis using i q l tr p m ad by (simp add: sortedQueue_example del: run_awaits.simps)
qed
section \<open>The loader and the managers\<close>

lemma run_loadFunction_loader [simp]: "w_loader (run_loadFunction f w) = w_loader w"
  by (simp add: run_loadFunction_def split: load_function.splits)

lemma videoReadyCheck_loader [simp]: "w_loader (videoReadyCheck w) = w_loader w"
  by (simp add: videoReadyCheck_def Let_def split: sum.splits)

lemma videoReadyCheck_images [simp]: "w_images (videoReadyCheck w) = w_images w"
  by (simp add: videoReadyCheck_def Let_def split: sum.splits)

lemma videoReadyCheck_video:
  "w_video (videoReadyCheck w) = w_video w
   \<or> (0 < w_ready_checks w \<and> isReady (w_video w)
      \<and> w_video (videoReadyCheck w) = (w_video w)\<lparr>vb_storage := (vb_storage (w_video w))
           \<lparr>ss_items := (ss_items (vb_storage (w_video w)))(''videoReady'' \<mapsto> ''true'')\<rparr>\<rparr>)"
  by (auto simp: videoReadyCheck_def setItem_def Let_def split: sum.splits if_splits)

lemma videoReadyCheck_other_keys:
  "k \<noteq> ''videoReady'' \<Longrightarrow>
     ss_items (vb_storage (w_video (videoReadyCheck w))) k = ss_items (vb_storage (w_video w)) k"
  using videoReadyCheck_video [of w] by auto

text \<open>
  Claim C9, amended. The loader's own state (queue, loaded tiers, flags, what it has
  scheduled) after any of its steps is the same on two pages that agree on the loader,
  whatever the state of the video background manager and of the image preloader; adding a
  tier, running a scheduled task and a rejected load leave both managers and the page
  untouched; a fulfilled load touches them only through the tier's load function, which
  constructs the manager and calls its public initialiser. The timer of the video tier's
  load function, however, calls the manager's public \<^verbatim>\<open>isReady()\<close> and, when it
  answers true, writes \<^verbatim>\<open>true\<close> under the session-storage key \<^verbatim>\<open>videoReady\<close>:
  that is its only effect on the manager's page, and no other key is written.
\<close>

theorem loader_state_independent_of_managers:
  assumes "w_loader w = w_loader w'"
  shows "w_loader (w_addTier t w) = w_loader (w_addTier t w')
       \<and> w_loader (w_awaited_settled ok w) = w_loader (w_awaited_settled ok w')
       \<and> w_loader (w_run_task task w) = w_loader (w_run_task task w')
       \<and> w_loader (w_scheduled_settled t ok w) = w_loader (w_scheduled_settled t ok w')
       \<and> w_loader (videoReadyCheck w) = w_loader w
       \<and> w_video (w_addTier t w) = w_video w \<and> w_images (w_addTier t w) = w_images w
       \<and> w_video (w_run_task task w) = w_video w \<and> w_images (w_run_task task w) = w_images w
       \<and> w_video (w_awaited_settled False w) = w_video w
       \<and> w_images (w_awaited_settled False w) = w_images w
       \<and> (\<forall>r tier rest. pl_suspended (w_loader w) = Some (r, tier, rest) \<longrightarrow>
             w_video (w_awaited_settled True w) = w_video (run_loadFunction (loadFunction tier) w)
           \<and> w_images (w_awaited_settled True w) = w_images (run_loadFunction (loadFunction tier) w))
       \<and> w_video (run_loadFunction VideoBackgroundLoad w)
           = outcome_state (vb_init (new_VideoBackgroundManager
               \<lparr>in_videoId = None, in_placeholderId = None, in_fadeDuration = None,
                in_fallbackTimeout = None, in_loadDelay = None\<rparr> (w_video w)))
       \<and> w_images (run_loadFunction VideoBackgroundLoad w) = w_images w
       \<and> w_images (run_loadFunction ImagePreloaderLoad w)
           = outcome_state (ip_init (w_ip_document w) (new_ImagePreloader
               \<lparr>rootMargin = ''50px'', enableHoverPreload = True,
                preloadAttribute = ''data-preload-src'', triggerClass = ''preload-trigger''\<rparr>
               (w_images w)))
       \<and> w_video (run_loadFunction ImagePreloaderLoad w) = w_video w
       \<and> w_images (videoReadyCheck w) = w_images w
       \<and> (w_video (videoReadyCheck w) = w_video w
          \<or> (0 < w_ready_checks w \<and> isReady (w_video w)
             \<and> w_video (videoReadyCheck w) = (w_video w)\<lparr>vb_storage := (vb_storage (w_video w))
                  \<lparr>ss_items := (ss_items (vb_storage (w_video w)))(''videoReady'' \<mapsto> ''true'')\<rparr>\<rparr>))
       \<and> (\<forall>k. k \<noteq> ''videoReady'' \<longrightarrow>
             ss_items (vb_storage (w_video (videoReadyCheck w))) k = ss_items (vb_storage (w_video w)) k)"
proof -
  have l: "w_loader (w_addTier t w) = w_loader (w_addTier t w')"
    "w_loader (w_awaited_settled ok w) = w_loader (w_awaited_settled ok w')"
    "w_loader (w_run_task task w) = w_loader (w_run_task task w')"
    "w_loader (w_scheduled_settled t ok w) = w_loader (w_scheduled_settled t ok w')"
    using assms
    by (simp_all add: w_addTier_def w_awaited_settled_def w_run_task_def w_scheduled_settled_def
        Let_def split: option.splits prod.splits)
  have k: "w_video (w_addTier t w) = w_video w" "w_images (w_addTier t w) = w_images w"
    "w_video (w_run_task task w) = w_video w" "w_images (w_run_task task w) = w_images w"
    "w_video (w_awaited_settled False w) = w_video w"
    "w_images (w_awaited_settled False w) = w_images w"
    by (simp_all add: w_addTier_def w_awaited_settled_def w_run_task_def split: option.splits prod.splits)
  have g: "\<forall>r tier rest. pl_suspended (w_loader w) = Some (r, tier, rest) \<longrightarrow>
             w_video (w_awaited_settled True w) = w_video (run_loadFunction (loadFunction tier) w)
           \<and> w_images (w_awaited_settled True w) = w_images (run_loadFunction (loadFunction tier) w)"
    by (simp add: w_awaited_settled_def)
  have f: "w_video (run_loadFunction VideoBackgroundLoad w)
           = outcome_state (vb_init (new_VideoBackgroundManager
               \<lparr>in_videoId = None, in_placeholderId = None, in_fadeDuration = None,
                in_fallbackTimeout = None, in_loadDelay = None\<rparr> (w_video w)))"
    "w_images (run_loadFunction VideoBackgroundLoad w) = w_images w"
    "w_images (run_loadFunction ImagePreloaderLoad w)
           = outcome_state (ip_init (w_ip_document w) (new_ImagePreloader
               \<lparr>rootMargin = ''50px'', enableHoverPreload = True,
                preloadAttribute = ''data-preload-src'', triggerClass = ''preload-trigger''\<rparr>
               (w_images w)))"
    "w_video (run_loadFunction ImagePreloaderLoad w) = w_video w"
    by (simp_all add: run_loadFunction_def)
  show ?thesis
    using l k g f videoReadyCheck_video [of w] videoReadyCheck_other_keys [of _ w]
    by (simp only: videoReadyCheck_loader videoReadyCheck_images) blast
qed

lemma world_same_loader: "w_loader world_initialized = w_loader world_loaded"
  by (simp add: world_initialized_def w_video_initialize_def)

text \<open>
  Claim C9, as stated, fails. After a page load the timer set by the load function of the
  video tier asks \<^verbatim>\<open>manager.isReady()\<close>: once the manager's deferred initialisation
  has run, the loader's code writes the flag \<^verbatim>\<open>videoReady\<close> (while the placeholder is
  still shown and no ready event has arrived); before it has run, the same timer writes
  nothing. The two pages have the same loader state and differ in the manager's fields.
\<close>

theorem video_tier_writes_videoReady_counterexample:
  "w_loader world_initialized = w_loader world_loaded
   \<and> isReady (w_video world_initialized)
   \<and> \<not> isReady (w_video world_loaded)
   \<and> ss_items (vb_storage (w_video world_initialized)) ''videoReady'' = None
   \<and> ss_items (vb_storage (w_video (videoReadyCheck world_initialized))) ''videoReady'' = Some ''true''
   \<and> ss_items (vb_storage (w_video (videoReadyCheck world_loaded))) ''videoReady'' = None
   \<and> \<not> placeholder_hidden (w_video (videoReadyCheck world_initialized))"
proof -
  have "isReady (w_video world_initialized)" by code_simp
  moreover have "\<not> isReady (w_video world_loaded)" by code_simp
  moreover have "ss_items (vb_storage (w_video world_initialized)) ''videoReady'' = None"
    by code_simp
  moreover have "ss_items (vb_storage (w_video (videoReadyCheck world_initialized))) ''videoReady''
      = Some ''true''"
    by code_simp
  moreover have "ss_items (vb_storage (w_video (videoReadyCheck world_loaded))) ''videoReady'' = None"
    by code_simp
  moreover have "\<not> placeholder_hidden (w_video (videoReadyCheck world_initialized))"
    by code_simp
  ultimately show ?thesis using world_same_loader by simp
qed

theorem loader_state_independent_of_managers_witness:
  "w_loader world_initialized = w_loader world_loaded
   \<and> w_loader (w_addTier video_tier world_initialized) = w_loader (w_addTier video_tier world_loaded)
   \<and> w_loader (w_awaited_settled True world_initialized) = w_loader (w_awaited_settled True world_loaded)
   \<and> 0 < w_ready_checks world_initialized \<and> isReady (w_video world_initialized)
   \<and> w_video (videoReadyCheck world_initialized) \<noteq> w_video world_initialized
   \<and> ''videoTime'' \<noteq> ''videoReady''
   \<and> ss_items (vb_storage (w_video (videoReadyCheck world_initialized))) ''videoTime''
       = ss_items (vb_storage (w_video world_initialized)) ''videoTime''
   \<and> pl_suspended (w_loader (initProgressiveLoader world_example)) = Some (0, video_tier, [])
   \<and> w_video world_loaded
       = w_video (run_loadFunction (loadFunction video_tier) (initProgressiveLoader world_example))"
proof -
  note t = loader_state_independent_of_managers [OF world_same_loader, of video_tier True "LoadTier video_tier"]
  note u = loader_state_independent_of_managers [where w = "initProgressiveLoader world_example"
      and w' = "initProgressiveLoader world_example" and t = video_tier and ok = True
      and task = "LoadTier video_tier", OF refl]
  have r: "isReady (w_video world_initialized)" by code_simp
  have c: "0 < w_ready_checks world_initialized" by code_simp
  have a: "ss_items (vb_storage (w_video world_initialized)) ''videoReady'' = None" by code_simp
  have b: "ss_items (vb_storage (w_video (videoReadyCheck world_initialized))) ''videoReady'' = Some ''true''"
    by code_simp
  have d: "w_video (videoReadyCheck world_initialized) \<noteq> w_video world_initialized"
    using a b by auto
  have k: "''videoTime'' \<noteq> ''videoReady''" by simp
  have s: "pl_suspended (w_loader (initProgressiveLoader world_example)) = Some (0, video_tier, [])"
    by code_simp
  note t1 = t [THEN conjunct1]
  note t2 = t [THEN conjunct2, THEN conjunct1]
  note t3 = t [THEN conjunct2, THEN conjunct2, THEN conjunct2, THEN conjunct2, THEN conjunct2,
      THEN conjunct2, THEN conjunct2, THEN conjunct2, THEN conjunct2, THEN conjunct2,
      THEN conjunct2, THEN conjunct2, THEN conjunct2, THEN conjunct2, THEN conjunct2,
      THEN conjunct2, THEN conjunct2, THEN conjunct2, THEN spec, THEN mp, OF k]
  note u1 = u [THEN conjunct2, THEN conjunct2, THEN conjunct2, THEN conjunct2, THEN conjunct2,
      THEN conjunct2, THEN conjunct2, THEN conjunct2, THEN conjunct2, THEN conjunct2,
      THEN conjunct2, THEN conjunct1, THEN spec, THEN spec, THEN spec, THEN mp, OF s,
      THEN conjunct1]
  have u2: "w_video world_loaded
       = w_video (run_loadFunction (loadFunction video_tier) (initProgressiveLoader world_example))"
    using u1 by (simp only: world_loaded_def)
  show ?thesis
    by (intro conjI) (rule world_same_loader t1 t2 c r d k t3 s u2)+
qed
section \<open>The public initialisers\<close>


lemma mn_log_fields [simp]:
  "mn_listeners (mn_log l m st) = mn_listeners st" "mn_timers (mn_log l m st) = mn_timers st"
  "mn_console (mn_log l m st) = mn_console st @ [(l, m)]"
  by (simp_all add: mn_log_def)










lemma ip_log_fields [simp]:
  "ip_cfg (ip_log l m st) = ip_cfg st" "ip_listeners (ip_log l m st) = ip_listeners st"
  by (simp_all add: ip_log_def)









text \<open>
  Two remarks on the limits of the claim. A selector that does not parse makes
  \<^verbatim>\<open>querySelector\<close> throw inside init, which catches and logs it. The deferred
  callback of the image preloader is not protected in the same way: without
  IntersectionObserver and with a trigger class that makes no selector, it throws, to the
  event loop and not to the caller of init.
\<close>

lemma mn_init_invalid_selector_logged:
  "returns (mn_init mn_document_strict (mn_example\<lparr>mn_cfg := (mn_cfg mn_example)\<lparr>menuSelector := ''#''\<rparr>\<rparr>))
   \<and> (Error, ''Failed to initialize mobile navigation:'')
        \<in> set (mn_console (outcome_state
             (mn_init mn_document_strict (mn_example\<lparr>mn_cfg := (mn_cfg mn_example)\<lparr>menuSelector := ''#''\<rparr>\<rparr>))))"
  by (simp add: mn_init_def mn_init_try_def querySelector_def querySelectorAll_def
      mn_document_strict_def mn_example_def mn_make_config_def defaultMobileNavigationConfig_def
      js_or_def mn_cleanup_def mn_clear_pending_def mn_log_def Let_def)

lemma initializeImagePreloader_can_throw:
  "\<not> returns (initializeImagePreloader (ip_document_legacy\<lparr>ip_selector_valid := (\<lambda>s. s \<noteq> ''.'')\<rparr>)
        (ip_example\<lparr>ip_cfg := (ip_cfg ip_example)\<lparr>triggerClass := []\<rparr>\<rparr>))"
  by (simp add: initializeImagePreloader_def setupLegacyHoverPreloading_def
      document_querySelectorAll_def ip_document_legacy_def ip_example_def ip_log_def)

end
